theory Spec2Isabelle
  imports Complex_Main
begin

section \<open>JavaScript values\<close>

text \<open>
  The component is written in TypeScript and runs as JavaScript. Its data (timelines,
  events, the visible range, import payloads) are JavaScript values; the interfaces
  \<open>TimelineData\<close>, \<open>EventData\<close> and \<open>TimeRange\<close> are compile-time
  annotations that \<open>importData\<close> does not check. The values are therefore modelled
  dynamically. A number is a real, NaN or an infinity (negative zero is not
  distinguished from zero). A \<open>Date\<close> holds a time value in milliseconds, or
  none when it is an invalid date. An object is the list of its own enumerable
  properties in enumeration order. Objects are compared by their contents: the model has
  no object identity, and every place where the source shares one object between two
  holders is written out as an explicit copy-back.
\<close>

datatype jsnum = Fin real | NaN | PosInf | NegInf

datatype jsval =
    Undefined
  | Null
  | JBool bool
  | JNum jsnum
  | JStr string
  | JDate "int option"
  | JArr "jsval list"
  | JObj "(string \<times> jsval) list"

datatype error = TypeError | RangeError | SyntaxError | Error string

text \<open>Truthiness (\<open>!v\<close>, \<open>a || b\<close>, \<open>c ? x : y\<close>) and nullishness (\<open>a ?? b\<close>).\<close>

fun truthy :: "jsval \<Rightarrow> bool" where
  "truthy Undefined = False"
| "truthy Null = False"
| "truthy (JBool b) = b"
| "truthy (JNum (Fin r)) = (r \<noteq> 0)"
| "truthy (JNum NaN) = False"
| "truthy (JNum PosInf) = True"
| "truthy (JNum NegInf) = True"
| "truthy (JStr s) = (s \<noteq> [])"
| "truthy (JDate d) = True"
| "truthy (JArr xs) = True"
| "truthy (JObj ps) = True"

fun nullish :: "jsval \<Rightarrow> bool" where
  "nullish Undefined = True"
| "nullish Null = True"
| "nullish v = False"

definition or_else :: "jsval \<Rightarrow> jsval \<Rightarrow> jsval" where
  \<comment> \<open>\<open>a || b\<close>\<close>
  "or_else a b = (if truthy a then a else b)"

definition nullish_else :: "jsval \<Rightarrow> jsval \<Rightarrow> jsval" where
  \<comment> \<open>\<open>a ?? b\<close>\<close>
  "nullish_else a b = (if nullish a then b else a)"

text \<open>
  Strict equality \<open>a === b\<close>: primitives by value, NaN unequal to itself. Two
  objects are strictly equal only when they are the same object, which the model cannot
  see; the identifiers compared by the component are numbers and strings.
\<close>

fun strict_eq :: "jsval \<Rightarrow> jsval \<Rightarrow> bool" where
  "strict_eq Undefined b = (b = Undefined)"
| "strict_eq Null b = (b = Null)"
| "strict_eq (JBool x) b = (b = JBool x)"
| "strict_eq (JNum x) b = (x \<noteq> NaN \<and> b = JNum x)"
| "strict_eq (JStr x) b = (b = JStr x)"
| "strict_eq (JDate d) b = False"
| "strict_eq (JArr xs) b = False"
| "strict_eq (JObj ps) b = False"

text \<open>
  Property read \<open>v.k\<close> for the property names the component uses (none of them is
  inherited from a prototype): a TypeError on \<open>undefined\<close> and \<open>null\<close>,
  the own property of an object, \<open>undefined\<close> otherwise.
\<close>

fun get_prop :: "jsval \<Rightarrow> string \<Rightarrow> error + jsval" where
  "get_prop Undefined k = Inl TypeError"
| "get_prop Null k = Inl TypeError"
| "get_prop (JObj ps) k = Inr (case map_of ps k of None \<Rightarrow> Undefined | Some v \<Rightarrow> v)"
| "get_prop v k = Inr Undefined"

section \<open>Options and construction\<close>

record Margin =
  m_top :: real
  m_right :: real
  m_bottom :: real
  m_left :: real

datatype PathType = straight | arc | fluid | magnet | grid

datatype Locale = zh | en

record StageLineParams =
  sl_path :: PathType
  sl_size :: real
  sl_color :: string
  sl_dash :: bool
  sl_arrow :: bool
  sl_animation :: bool

text \<open>\<open>TimelineOptions\<close>: every field optional (\<open>None\<close> is an absent key).\<close>

record TimelineOptions =
  o_id :: "jsval option"
  o_width :: "real option"
  o_height :: "real option"
  o_margin :: "Margin option"
  o_timelineHeight :: "real option"
  o_timelineSpacing :: "real option"
  o_axisHeight :: "real option"
  o_zoomMin :: "real option"
  o_zoomMax :: "real option"
  o_animationDuration :: "real option"
  o_stageLineParams :: "StageLineParams option"
  o_locale :: "Locale option"

text \<open>
  \<open>Required<TimelineOptions>\<close>. Sizes and durations are finite numbers; the
  identifier is any value.
\<close>

record Options =
  opt_id :: jsval
  width :: real
  height :: real
  margin :: Margin
  timelineHeight :: real
  timelineSpacing :: real
  axisHeight :: real
  zoomMin :: real
  zoomMax :: real
  animationDuration :: real
  stageLineParams :: StageLineParams
  locale_opt :: Locale

text \<open>
  \<open>defaultOptions\<close>. The default id comes from \<open>generateID()\<close> of
  \<open>D3Utility\<close>, which is not among the sources: its result is a parameter.
\<close>

definition defaultOptions :: "jsval \<Rightarrow> Options" where
  "defaultOptions gid =
     \<lparr> opt_id = gid,
       width = 0,
       height = 0,
       margin = \<lparr> m_top = 20, m_right = 20, m_bottom = 20, m_left = 120 \<rparr>,
       timelineHeight = 60,
       timelineSpacing = 20,
       axisHeight = 20,
       zoomMin = 8 * 24 * 60 * 60 * 1000,
       zoomMax = 365 * 24 * 60 * 60 * 1000,
       animationDuration = 300,
       stageLineParams =
         \<lparr> sl_path = straight, sl_size = 2, sl_color = ''#9f86c0'',
           sl_dash = True, sl_arrow = True, sl_animation = False \<rparr>,
       locale_opt = en \<rparr>"

definition pick :: "'a \<Rightarrow> 'a option \<Rightarrow> 'a" where
  "pick d x = (case x of None \<Rightarrow> d | Some v \<Rightarrow> v)"

definition merge_options :: "Options \<Rightarrow> TimelineOptions \<Rightarrow> Options" where
  \<comment> \<open>\<open>{ ...this.defaultOptions, ...options }\<close>\<close>
  "merge_options d user =
     \<lparr> opt_id = pick (opt_id d) (o_id user),
       width = pick (width d) (o_width user),
       height = pick (height d) (o_height user),
       margin = pick (margin d) (o_margin user),
       timelineHeight = pick (timelineHeight d) (o_timelineHeight user),
       timelineSpacing = pick (timelineSpacing d) (o_timelineSpacing user),
       axisHeight = pick (axisHeight d) (o_axisHeight user),
       zoomMin = pick (zoomMin d) (o_zoomMin user),
       zoomMax = pick (zoomMax d) (o_zoomMax user),
       animationDuration = pick (animationDuration d) (o_animationDuration user),
       stageLineParams = pick (stageLineParams d) (o_stageLineParams user),
       locale_opt = pick (locale_opt d) (o_locale user) \<rparr>"

text \<open>The container element, as far as the component reads it.\<close>

record Container =
  clientWidth :: nat
  clientHeight :: nat

text \<open>
  The first part of the constructor: the merged options with the container's size filled
  in where the option is not positive.
\<close>

definition resolve_size :: "Container \<Rightarrow> Options \<Rightarrow> Options" where
  "resolve_size container opts =
     (let o1 = (if width opts \<le> 0 \<and> clientWidth container > 0
                then opts\<lparr>width := real (clientWidth container)\<rparr> else opts);
          o2 = (if height o1 \<le> 0 \<and> clientHeight container > 0
                then o1\<lparr>height := real (clientHeight container)\<rparr> else o1)
      in o2)"

text \<open>
  JavaScript division and \<open>Math.max(1, x)\<close> on the results: a division by zero
  is an infinity or NaN, not HOL's zero.
\<close>

definition js_div :: "real \<Rightarrow> real \<Rightarrow> jsnum" where
  "js_div a b =
     (if b \<noteq> 0 then Fin (a / b)
      else if a = 0 then NaN
      else if a > 0 then PosInf else NegInf)"

fun Math_max1 :: "jsnum \<Rightarrow> jsnum" where
  "Math_max1 (Fin r) = Fin (max 1 r)"
| "Math_max1 NaN = NaN"
| "Math_max1 PosInf = PosInf"
| "Math_max1 NegInf = Fin 1"

text \<open>The visible range: two dates, as time values in milliseconds.\<close>

definition initialRange :: "int \<Rightarrow> int \<Rightarrow> real" where
  \<comment> \<open>\<open>this.timeRange.end.getTime() - this.timeRange.start.getTime()\<close>\<close>
  "initialRange start_ms end_ms = real_of_int (end_ms - start_ms)"

definition setupZoom :: "Options \<Rightarrow> int \<Rightarrow> int \<Rightarrow> jsnum \<times> jsnum" where
  \<comment> \<open>the pair given to \<open>scaleExtent\<close>\<close>
  "setupZoom opts start_ms end_ms =
     (let minScale = js_div (zoomMax opts) (initialRange start_ms end_ms);
          maxScale = js_div (initialRange start_ms end_ms) (zoomMin opts)
      in (Math_max1 minScale, Math_max1 maxScale))"

section \<open>The instance\<close>

text \<open>
  The fields of a \<open>D3Timeline\<close> that hold data: the options, the two backing arrays,
  the visible range, the stage-line switch, the scale extent given to the zoom
  behaviour, and what has been passed to \<open>logger.error\<close>. The SVG nodes, scales and
  tooltip belong to the drawing library and the document.
\<close>

record D3Timeline =
  options :: Options
  timelines :: "jsval list"
  events :: "jsval list"
  timeRange :: jsval
  stageLinesVisible :: bool
  scaleExtent :: "jsnum \<times> jsnum"
  logged :: "error list"

text \<open>
  \<open>init\<close>: \<open>setupTimeRange\<close> builds two dates ten years before and after today
  with the runtime's calendar; their time values are parameters. The plugin registry is
  the static list \<open>D3Timeline.plugins\<close>, empty unless a host fills it.
\<close>

definition init :: "Options \<Rightarrow> int \<Rightarrow> int \<Rightarrow> D3Timeline" where
  "init opts startDate endDate =
     \<lparr> options = opts,
       timelines = [],
       events = [],
       timeRange = JObj [(''start'', JDate (Some startDate)), (''end'', JDate (Some endDate))],
       stageLinesVisible = True,
       scaleExtent = setupZoom opts startDate endDate,
       logged = [] \<rparr>"

definition constructor ::
  "jsval \<Rightarrow> int \<Rightarrow> int \<Rightarrow> Container \<Rightarrow> TimelineOptions \<Rightarrow> error + D3Timeline" where
  "constructor gid startDate endDate container user =
     (let opts = resolve_size container (merge_options (defaultOptions gid) user)
      in if width opts \<le> 0 then Inl (Error ''D3Timeline err: width is zero.'')
         else Inr (init opts startDate endDate))"

text \<open>No option given: \<open>new D3Timeline(container)\<close>.\<close>

definition no_options :: TimelineOptions where
  "no_options =
     \<lparr> o_id = None, o_width = None, o_height = None, o_margin = None,
       o_timelineHeight = None, o_timelineSpacing = None, o_axisHeight = None,
       o_zoomMin = None, o_zoomMax = None, o_animationDuration = None,
       o_stageLineParams = None, o_locale = None \<rparr>"

text \<open>
  The resolved width in the words of the specification: the explicit option, else the
  container's client width.
\<close>

definition resolved_width :: "Container \<Rightarrow> TimelineOptions \<Rightarrow> real" where
  "resolved_width container user =
     (case o_width user of
        None \<Rightarrow> real (clientWidth container)
      | Some w \<Rightarrow> if 0 < w then w
                  else if 0 < clientWidth container then real (clientWidth container)
                  else w)"

section \<open>The runtime and the document\<close>

text \<open>
  Built-in behaviour of the JavaScript runtime that the component relies on is a
  parameter of the model: the conversion of strings, arrays and objects to numbers and
  to strings (\<open>None\<close> when they raise a TypeError, as they do where
  \<open>toString\<close> or \<open>valueOf\<close> is shadowed by a non-function), the date formats, the date parser, and the JSON text
  layer (\<open>JSON_write\<close> prints a JSON tree with the given indentation,
  \<open>JSON_read\<close> gives the tree of a text, or nothing on a syntax error).
\<close>

record Runtime =
  rt_ToNumber :: "jsval \<Rightarrow> jsnum option"
  rt_ToString :: "jsval \<Rightarrow> string option"
  toISOString :: "int \<Rightarrow> string"
  toLocaleString :: "int option \<Rightarrow> string"
  Date_parse :: "string \<Rightarrow> int option"
  JSON_write :: "nat \<Rightarrow> jsval \<Rightarrow> string"
  JSON_read :: "string \<Rightarrow> jsval option"

text \<open>
  What a call reads from the outside world: the result of \<open>generateID()\<close>
  (\<open>D3Utility\<close> is not among the sources) and the two clock readings
  \<open>new Date()\<close> of an event without start or end time.
\<close>

record Env =
  generateID :: jsval
  now_start :: int
  now_end :: int

text \<open>
  What a call reads from the document and the drawing library: the container's size,
  the number of rendered timeline nodes, the data bound to the rendered event nodes
  (nodes leave the document when their exit transition ends, so these are inputs of each
  call), and the time scale. Calls into the library are taken not to raise by
  themselves; the callbacks that the component hands to it are modelled.
\<close>

record DOM =
  container :: Container
  rendered_timelines :: nat
  rendered_events :: "jsval list"
  xScale :: "jsval \<Rightarrow> real"

fun ToNumber :: "Runtime \<Rightarrow> jsval \<Rightarrow> error + jsnum" where
  "ToNumber rt Undefined = Inr NaN"
| "ToNumber rt Null = Inr (Fin 0)"
| "ToNumber rt (JBool b) = Inr (Fin (if b then 1 else 0))"
| "ToNumber rt (JNum n) = Inr n"
| "ToNumber rt (JDate d) = Inr (case d of None \<Rightarrow> NaN | Some t \<Rightarrow> Fin (real_of_int t))"
| "ToNumber rt v = (case rt_ToNumber rt v of None \<Rightarrow> Inl TypeError | Some n \<Rightarrow> Inr n)"

fun ToString_check :: "Runtime \<Rightarrow> jsval \<Rightarrow> error + unit" where
  \<comment> \<open>whether the conversion in a template literal raises\<close>
  "ToString_check rt (JArr xs) =
     (case rt_ToString rt (JArr xs) of None \<Rightarrow> Inl TypeError | Some _ \<Rightarrow> Inr ())"
| "ToString_check rt (JObj ps) =
     (case rt_ToString rt (JObj ps) of None \<Rightarrow> Inl TypeError | Some _ \<Rightarrow> Inr ())"
| "ToString_check rt v = Inr ()"

text \<open>Subtraction of numbers, as far as its sign: \<open>None\<close> is NaN.\<close>

fun js_sub_sign :: "jsnum \<Rightarrow> jsnum \<Rightarrow> int option" where
  "js_sub_sign NaN b = None"
| "js_sub_sign a NaN = None"
| "js_sub_sign (Fin a) (Fin b) = Some (if a < b then -1 else if b < a then 1 else 0)"
| "js_sub_sign (Fin a) PosInf = Some (-1)"
| "js_sub_sign (Fin a) NegInf = Some 1"
| "js_sub_sign PosInf PosInf = None"
| "js_sub_sign PosInf b = Some 1"
| "js_sub_sign NegInf NegInf = None"
| "js_sub_sign NegInf b = Some (-1)"

section \<open>Timelines in the backing array\<close>

fun find_by_id :: "jsval list \<Rightarrow> jsval \<Rightarrow> error + jsval option" where
  \<comment> \<open>\<open>this.timelines.find((t) => t.id === timelineId)\<close>\<close>
  "find_by_id [] tid = Inr None"
| "find_by_id (t # ts) tid =
     (case get_prop t ''id'' of
        Inl e \<Rightarrow> Inl e
      | Inr i \<Rightarrow> if strict_eq i tid then Inr (Some t) else find_by_id ts tid)"

fun find_index_by_id :: "jsval list \<Rightarrow> jsval \<Rightarrow> error + nat option" where
  \<comment> \<open>the position of the element that \<open>find\<close> returns; \<open>indexOf\<close> gives the same
      position for a truthy element\<close>
  "find_index_by_id [] tid = Inr None"
| "find_index_by_id (t # ts) tid =
     (case get_prop t ''id'' of
        Inl e \<Rightarrow> Inl e
      | Inr i \<Rightarrow> if strict_eq i tid then Inr (Some 0)
                 else map_sum id (map_option Suc) (find_index_by_id ts tid))"

definition calculateTimelineOffsetY :: "D3Timeline \<Rightarrow> nat \<Rightarrow> real" where
  \<comment> \<open>for the timeline at position \<open>i\<close>\<close>
  "calculateTimelineOffsetY s i =
     (real (length (timelines s)) - real i - 1)
       * (timelineHeight (options s) + timelineSpacing (options s))
     + m_top (margin (options s))"

definition calculateHeight :: "D3Timeline \<Rightarrow> real" where
  "calculateHeight s =
     m_top (margin (options s)) + m_bottom (margin (options s)) + axisHeight (options s)
     + real (length (timelines s))
         * (timelineSpacing (options s) + timelineHeight (options s))"

section \<open>Stage lines\<close>

datatype PathCmd =
    M real real
  | L real real
  | Q real real real real
  | C real real real real real real

record Point =
  p_x :: real
  p_y :: real
  p_event :: jsval
  p_width :: real

definition generatePathSegment :: "Point \<Rightarrow> Point \<Rightarrow> PathType \<Rightarrow> PathCmd list" where
  "generatePathSegment start end' pathType =
     (case pathType of
        arc \<Rightarrow>
          (let midX = (p_x start + p_x end') / 2;
               arcHeight = \<bar>p_x end' - p_x start\<bar> * 0.2
           in [Q midX (min (p_y start) (p_y end') - arcHeight) (p_x end') (p_y end')])
      | fluid \<Rightarrow>
          (let cp1x = p_x start + (p_x end' - p_x start) * 0.5;
               cp1y = p_y start;
               cp2x = p_x start + (p_x end' - p_x start) * 0.5;
               cp2y = p_y end'
           in [C cp1x cp1y cp2x cp2y (p_x end') (p_y end')])
      | magnet \<Rightarrow>
          (let midY = (p_y start + p_y end') / 2
           in [L (p_x start) midY, L (p_x end') midY, L (p_x end') (p_y end')])
      | grid \<Rightarrow>
          (let offset = 30
           in if \<bar>p_y start - p_y end'\<bar> < 5 then [L (p_x end') (p_y end')]
              else [L (p_x start + offset) (p_y start), L (p_x start + offset) (p_y end'),
                    L (p_x end') (p_y end')])
      | straight \<Rightarrow> [L (p_x end') (p_y end')])"

text \<open>
  The path data is built by appending: \<open>M x y\<close> before the first segment, then one
  segment per adjacent pair of points. The pieces are kept apart; the \<open>d\<close>
  attribute is their concatenation.
\<close>

fun segments :: "Point list \<Rightarrow> PathType \<Rightarrow> PathCmd list list" where
  "segments (a # b # ps) pathType = generatePathSegment a b pathType # segments (b # ps) pathType"
| "segments ps pathType = []"

fun pathPieces :: "Point list \<Rightarrow> PathType \<Rightarrow> PathCmd list list" where
  "pathPieces (a # b # ps) pathType = [M (p_x a) (p_y a)] # segments (a # b # ps) pathType"
| "pathPieces ps pathType = []"

definition pathData :: "Point list \<Rightarrow> PathType \<Rightarrow> PathCmd list" where
  "pathData ps pathType = concat (pathPieces ps pathType)"

fun arrowPairs :: "Point list \<Rightarrow> (Point \<times> Point) list" where
  \<comment> \<open>the calls of \<open>drawArrowInGroup\<close>\<close>
  "arrowPairs (a # b # ps) = (a, b) # arrowPairs (b # ps)"
| "arrowPairs ps = []"

text \<open>
  \<open>stageGroups\<close>: a \<open>Map\<close> from stage id to the events of that stage, keys in
  insertion order. Map keys are compared by value (NaN equal to itself).
\<close>

fun group_push :: "jsval \<Rightarrow> jsval \<Rightarrow> (jsval \<times> jsval list) list \<Rightarrow> (jsval \<times> jsval list) list" where
  "group_push key event [] = [(key, [event])]"
| "group_push key event ((k, es) # gs) =
     (if k = key then (k, es @ [event]) # gs else (k, es) # group_push key event gs)"

fun collectStageGroups ::
  "jsval list \<Rightarrow> (jsval \<times> jsval list) list \<Rightarrow> error + (jsval \<times> jsval list) list" where
  "collectStageGroups [] gs = Inr gs"
| "collectStageGroups (event # es) gs =
     (case get_prop event ''stage'' of
        Inl e \<Rightarrow> Inl e
      | Inr st \<Rightarrow>
          if truthy st then
            (case get_prop st ''id'' of
               Inl e \<Rightarrow> Inl e
             | Inr key \<Rightarrow> collectStageGroups es (group_push key event gs))
          else collectStageGroups es gs)"

text \<open>
  The sort key of an event in a group, \<open>a.stage.index || 0\<close> as a number, and the
  stable sort by the sign of the difference of two keys (a NaN difference counts as
  equal).
\<close>

definition stage_index :: "Runtime \<Rightarrow> jsval \<Rightarrow> error + jsnum" where
  "stage_index rt event =
     (case get_prop event ''stage'' of
        Inl e \<Rightarrow> Inl e
      | Inr st \<Rightarrow>
          (case get_prop st ''index'' of
             Inl e \<Rightarrow> Inl e
           | Inr i \<Rightarrow> ToNumber rt (or_else i (JNum (Fin 0)))))"

fun stage_keys :: "Runtime \<Rightarrow> jsval list \<Rightarrow> error + (jsnum \<times> jsval) list" where
  "stage_keys rt [] = Inr []"
| "stage_keys rt (e # es) =
     (case stage_index rt e of
        Inl err \<Rightarrow> Inl err
      | Inr k \<Rightarrow>
          (case stage_keys rt es of
             Inl err \<Rightarrow> Inl err
           | Inr ks \<Rightarrow> Inr ((k, e) # ks)))"

definition before :: "jsnum \<Rightarrow> jsnum \<Rightarrow> bool" where
  "before a b = (case js_sub_sign a b of Some d \<Rightarrow> d < 0 | None \<Rightarrow> False)"

fun insert_stable :: "jsnum \<times> jsval \<Rightarrow> (jsnum \<times> jsval) list \<Rightarrow> (jsnum \<times> jsval) list" where
  "insert_stable x [] = [x]"
| "insert_stable x (y # ys) =
     (if before (fst x) (fst y) then x # y # ys else y # insert_stable x ys)"

definition sort_stable :: "(jsnum \<times> jsval) list \<Rightarrow> (jsnum \<times> jsval) list" where
  "sort_stable xs = foldl (\<lambda>acc x. insert_stable x acc) [] xs"

definition sortByStageIndex :: "Runtime \<Rightarrow> jsval list \<Rightarrow> error + jsval list" where
  \<comment> \<open>the comparator is not called on a group of fewer than two events\<close>
  "sortByStageIndex rt es =
     (if length es < 2 then Inr es
      else (case stage_keys rt es of
              Inl err \<Rightarrow> Inl err
            | Inr ks \<Rightarrow> Inr (map snd (sort_stable ks))))"

text \<open>
  The anchor point of an event. The time scale belongs to the drawing library and is a
  parameter.
\<close>

definition stagePoint :: "(jsval \<Rightarrow> real) \<Rightarrow> D3Timeline \<Rightarrow> jsval \<Rightarrow> error + Point" where
  "stagePoint scale s event =
     (case get_prop event ''timelineId'' of
        Inl e \<Rightarrow> Inl e
      | Inr tid \<Rightarrow>
     (case find_index_by_id (timelines s) tid of
        Inl e \<Rightarrow> Inl e
      | Inr timeline \<Rightarrow>
     (case get_prop event ''startTime'' of
        Inl e \<Rightarrow> Inl e
      | Inr startTime \<Rightarrow>
     (case get_prop event ''endTime'' of
        Inl e \<Rightarrow> Inl e
      | Inr endTime \<Rightarrow>
     (case get_prop event ''type'' of
        Inl e \<Rightarrow> Inl e
      | Inr ty \<Rightarrow>
          Inr \<lparr> p_x = scale startTime,
                p_y = (case timeline of
                         Some i \<Rightarrow>
                           if truthy (timelines s ! i)
                           then calculateTimelineOffsetY s i + timelineHeight (options s) / 2
                           else 0
                       | None \<Rightarrow> 0),
                p_event = event,
                p_width = (if strict_eq ty (JStr ''range'')
                           then scale endTime - scale startTime else 0) \<rparr>)))))"

fun stagePoints :: "(jsval \<Rightarrow> real) \<Rightarrow> D3Timeline \<Rightarrow> jsval list \<Rightarrow> error + Point list" where
  "stagePoints scale s [] = Inr []"
| "stagePoints scale s (e # es) =
     (case stagePoint scale s e of
        Inl err \<Rightarrow> Inl err
      | Inr p \<Rightarrow>
          (case stagePoints scale s es of
             Inl err \<Rightarrow> Inl err
           | Inr ps \<Rightarrow> Inr (p # ps)))"

text \<open>What is appended to the stage-line layer for one stage.\<close>

record StageLine =
  sg_id :: jsval
  sg_members :: "jsval list"
  sg_pieces :: "PathCmd list list"
  sg_arrows :: "(Point \<times> Point) list"

definition renderStageGroup ::
  "Runtime \<Rightarrow> (jsval \<Rightarrow> real) \<Rightarrow> D3Timeline \<Rightarrow> jsval \<times> jsval list \<Rightarrow> error + StageLine option" where
  "renderStageGroup rt scale s g =
     (case sortByStageIndex rt (snd g) of
        Inl e \<Rightarrow> Inl e
      | Inr ordered \<Rightarrow>
          if length ordered < 2 then Inr None
          else
            (case ToString_check rt (fst g) of
               Inl e \<Rightarrow> Inl e
             | Inr _ \<Rightarrow>
            (case stagePoints scale s ordered of
               Inl e \<Rightarrow> Inl e
             | Inr points \<Rightarrow>
                 (let params = stageLineParams (options s)
                  in Inr (Some \<lparr> sg_id = fst g,
                                 sg_members = ordered,
                                 sg_pieces = pathPieces points (sl_path params),
                                 sg_arrows = (if sl_arrow params \<and> length points \<ge> 2
                                              then arrowPairs points else []) \<rparr>)))))"

fun renderStageGroups ::
  "Runtime \<Rightarrow> (jsval \<Rightarrow> real) \<Rightarrow> D3Timeline \<Rightarrow> (jsval \<times> jsval list) list \<Rightarrow> error + StageLine list" where
  "renderStageGroups rt scale s [] = Inr []"
| "renderStageGroups rt scale s (g # gs) =
     (case renderStageGroup rt scale s g of
        Inl e \<Rightarrow> Inl e
      | Inr r \<Rightarrow>
          (case renderStageGroups rt scale s gs of
             Inl e \<Rightarrow> Inl e
           | Inr rs \<Rightarrow> Inr ((case r of None \<Rightarrow> [] | Some l \<Rightarrow> [l]) @ rs)))"

text \<open>
  \<open>renderStageLines\<close>: \<open>None\<close> when the function returns at once because the
  stage lines are hidden (the layer keeps what it had), otherwise the new content of
  the layer.
\<close>

definition renderStageLines ::
  "Runtime \<Rightarrow> (jsval \<Rightarrow> real) \<Rightarrow> D3Timeline \<Rightarrow> error + StageLine list option" where
  "renderStageLines rt scale s =
     (if \<not> stageLinesVisible s then Inr None
      else (case collectStageGroups (events s) [] of
              Inl e \<Rightarrow> Inl e
            | Inr groups \<Rightarrow> map_sum id Some (renderStageGroups rt scale s groups)))"

section \<open>Rendering, as far as it can fail\<close>

text \<open>
  Rendering writes to the document only. What it contributes to the control flow of the
  data operations is the exceptions of the component's own callbacks: the data-join key
  \<open>(d) => d.id.toString()\<close>, called by the library on every timeline and every
  event, the lookups \<open>t.id === d.timelineId\<close>, and \<open>renderStageLines\<close>.
\<close>

fun call_toString :: "Runtime \<Rightarrow> jsval \<Rightarrow> error + unit" where
  \<comment> \<open>\<open>v.toString()\<close>; an own property \<open>toString\<close> of a data object is not a function,
      and an array joins the strings of its elements\<close>
  "call_toString rt Undefined = Inl TypeError"
| "call_toString rt Null = Inl TypeError"
| "call_toString rt (JObj ps) = (if map_of ps ''toString'' = None then Inr () else Inl TypeError)"
| "call_toString rt (JArr xs) = ToString_check rt (JArr xs)"
| "call_toString rt v = Inr ()"

fun check_keys :: "Runtime \<Rightarrow> jsval list \<Rightarrow> error + unit" where
  "check_keys rt [] = Inr ()"
| "check_keys rt (d # ds) =
     (case get_prop d ''id'' of
        Inl e \<Rightarrow> Inl e
      | Inr i \<Rightarrow> (case call_toString rt i of Inl e \<Rightarrow> Inl e | Inr _ \<Rightarrow> check_keys rt ds))"

definition renderTimelines :: "Runtime \<Rightarrow> D3Timeline \<Rightarrow> error + unit" where
  \<comment> \<open>the join of the timelines, then \<open>renderTimelineLabels\<close> with the same key\<close>
  "renderTimelines rt s =
     (case check_keys rt (timelines s) of
        Inl e \<Rightarrow> Inl e
      | Inr _ \<Rightarrow> check_keys rt (timelines s))"

definition renderEvents :: "Runtime \<Rightarrow> D3Timeline \<Rightarrow> error + unit" where
  "renderEvents rt s = check_keys rt (events s)"

definition timeline_of :: "D3Timeline \<Rightarrow> jsval \<Rightarrow> error + nat option" where
  \<comment> \<open>\<open>this.timelines.find((t) => t.id === d.timelineId)\<close>\<close>
  "timeline_of s d =
     (if timelines s = [] then Inr None
      else (case get_prop d ''timelineId'' of
              Inl e \<Rightarrow> Inl e
            | Inr tid \<Rightarrow> find_index_by_id (timelines s) tid))"

fun updateEventPositions :: "D3Timeline \<Rightarrow> jsval list \<Rightarrow> error + unit" where
  \<comment> \<open>over the data of the rendered event nodes\<close>
  "updateEventPositions s [] = Inr ()"
| "updateEventPositions s (d # ds) =
     (case timeline_of s d of Inl e \<Rightarrow> Inl e | Inr _ \<Rightarrow> updateEventPositions s ds)"

definition render :: "Runtime \<Rightarrow> DOM \<Rightarrow> bool \<Rightarrow> D3Timeline \<Rightarrow> error + unit" where
  \<comment> \<open>\<open>updateTimelinePositions\<close> selects the class \<open>.timeline\<close>, which no node has\<close>
  "render rt doc force s =
     (if rendered_timelines doc \<noteq> length (timelines s)
         \<or> length (rendered_events doc) \<noteq> length (events s) \<or> force
      then (case renderTimelines rt s of
              Inl e \<Rightarrow> Inl e
            | Inr _ \<Rightarrow>
           (case renderEvents rt s of
              Inl e \<Rightarrow> Inl e
            | Inr _ \<Rightarrow> map_sum id (\<lambda>_. ()) (renderStageLines rt (xScale doc) s)))
      else updateEventPositions s (rendered_events doc))"

text \<open>
  \<open>resize\<close> recomputes the size options and renders in full. \<open>fitRange\<close>, which it
  and the add operations call, is asynchronous and moves the zoom transform only.
  An operation returns its outcome, a value or the exception it raises, together with
  the instance as it is left.
\<close>

definition resize :: "Runtime \<Rightarrow> DOM \<Rightarrow> D3Timeline \<Rightarrow> (error + unit) \<times> D3Timeline" where
  "resize rt doc s =
     (let w = (if clientWidth (container doc) \<noteq> 0 then real (clientWidth (container doc))
               else width (options s));
          s1 = s\<lparr>options := (options s)\<lparr>width := w\<rparr>\<rparr>;
          s2 = s1\<lparr>options := (options s1)\<lparr>height := calculateHeight s1\<rparr>\<rparr>
      in (render rt doc True s2, s2))"

section \<open>Adding and removing timelines\<close>

definition addTimeline ::
  "Runtime \<Rightarrow> DOM \<Rightarrow> Env \<Rightarrow> string \<Rightarrow> string option \<Rightarrow> jsval \<Rightarrow> bool \<Rightarrow> D3Timeline
     \<Rightarrow> (error + jsval) \<times> D3Timeline" where
  "addTimeline rt doc env name color i autofit s =
     (let timeline = JObj [(''id'', nullish_else i (generateID env)),
                           (''name'', JStr name),
                           (''color'', JStr (pick ''#667eea'' color))];
          s1 = s\<lparr>timelines := timelines s @ [timeline]\<rparr>
      in if autofit then
           (case resize rt doc s1 of
              (Inl e, s2) \<Rightarrow> (Inl e, s2)
            | (Inr _, s2) \<Rightarrow> (Inr timeline, s2))
         else (Inr timeline, s1))"

fun filter_prop_ne :: "string \<Rightarrow> jsval \<Rightarrow> jsval list \<Rightarrow> error + jsval list" where
  \<comment> \<open>\<open>xs.filter((x) => x.k !== id)\<close>\<close>
  "filter_prop_ne k i [] = Inr []"
| "filter_prop_ne k i (x # xs) =
     (case get_prop x k of
        Inl e \<Rightarrow> Inl e
      | Inr v \<Rightarrow>
          (case filter_prop_ne k i xs of
             Inl e \<Rightarrow> Inl e
           | Inr ys \<Rightarrow> Inr (if strict_eq v i then ys else x # ys)))"

definition removeTimeline ::
  "Runtime \<Rightarrow> DOM \<Rightarrow> jsval \<Rightarrow> D3Timeline \<Rightarrow> (error + unit) \<times> D3Timeline" where
  "removeTimeline rt doc i s =
     (case filter_prop_ne ''id'' i (timelines s) of
        Inl e \<Rightarrow> (Inl e, s)
      | Inr ts \<Rightarrow>
          (let s1 = s\<lparr>timelines := ts\<rparr>
           in case filter_prop_ne ''timelineId'' i (events s1) of
                Inl e \<Rightarrow> (Inl e, s1)
              | Inr es \<Rightarrow> resize rt doc (s1\<lparr>events := es\<rparr>)))"

section \<open>Adding events\<close>

definition field :: "jsval \<Rightarrow> string \<Rightarrow> jsval" where
  \<comment> \<open>a property of a value known not to be \<open>undefined\<close> or \<open>null\<close>\<close>
  "field v k = (case get_prop v k of Inl _ \<Rightarrow> Undefined | Inr x \<Rightarrow> x)"

text \<open>
  The object literal \<open>eventData\<close>, written in the same way in \<open>addEvent\<close> and in
  \<open>addEvents\<close>. Reading \<open>event.id\<close> raises when the event is \<open>undefined\<close>
  or \<open>null\<close>; the timeline has been found, so it is an object.
\<close>

definition eventData :: "Env \<Rightarrow> jsval \<Rightarrow> jsval \<Rightarrow> jsval \<Rightarrow> error + jsval" where
  "eventData env event timelineId timeline =
     (if nullish event then Inl TypeError
      else Inr (JObj
        [(''id'', nullish_else (field event ''id'') (generateID env)),
         (''timelineId'', timelineId),
         (''title'', or_else (field event ''title'') (JStr [])),
         (''description'', or_else (field event ''description'') (JStr [])),
         (''startTime'', or_else (field event ''startTime'') (JDate (Some (now_start env)))),
         (''endTime'', or_else (field event ''endTime'')
                         (or_else (field event ''startTime'') (JDate (Some (now_end env))))),
         (''color'', or_else (field event ''color'') (field timeline ''color'')),
         (''type'', if truthy (field event ''endTime'') then JStr ''range'' else JStr ''point''),
         (''stage'', field event ''stage'')]))"

definition addEvent ::
  "Runtime \<Rightarrow> DOM \<Rightarrow> Env \<Rightarrow> jsval \<Rightarrow> jsval \<Rightarrow> bool \<Rightarrow> D3Timeline
     \<Rightarrow> (error + jsval) \<times> D3Timeline" where
  "addEvent rt doc env event timelineId autofit s =
     (case find_by_id (timelines s) timelineId of
        Inl e \<Rightarrow> (Inl e, s)
      | Inr None \<Rightarrow> (Inr Null, s)
      | Inr (Some timeline) \<Rightarrow>
     (case (if nullish timelineId then get_prop event ''timelineId'' else Inr timelineId) of
        Inl e \<Rightarrow> (Inl e, s)
      | Inr timelineId' \<Rightarrow>
          if \<not> truthy timelineId' then (Inl (Error ''The timelineId is not specified.''), s)
          else
     (case eventData env event timelineId' timeline of
        Inl e \<Rightarrow> (Inl e, s)
      | Inr ev \<Rightarrow>
          (let s1 = s\<lparr>events := events s @ [ev]\<rparr>
           in case render rt doc False s1 of
                Inl e \<Rightarrow> (Inl e, s1)
              | Inr _ \<Rightarrow> (Inr ev, s1)))))"

fun mapEvents ::
  "jsval list \<Rightarrow> (nat \<Rightarrow> Env) \<Rightarrow> jsval \<Rightarrow> nat \<Rightarrow> jsval list \<Rightarrow> error + jsval list" where
  \<comment> \<open>\<open>events.map(...)\<close> of \<open>addEvents\<close>; the \<open>n\<close>-th call reads \<open>envs n\<close>\<close>
  "mapEvents ts envs timelineId n [] = Inr []"
| "mapEvents ts envs timelineId n (event # es) =
     (case (if nullish timelineId then get_prop event ''timelineId'' else Inr timelineId) of
        Inl e \<Rightarrow> Inl e
      | Inr targetTimelineId \<Rightarrow>
          if \<not> truthy targetTimelineId then Inl (Error ''The timelineId is not specified.'')
          else
     (case find_by_id ts targetTimelineId of
        Inl e \<Rightarrow> Inl e
      | Inr None \<Rightarrow> Inl (Error ''The timeineId is invalid.'')
      | Inr (Some timeline) \<Rightarrow>
     (case eventData (envs n) event targetTimelineId timeline of
        Inl e \<Rightarrow> Inl e
      | Inr ev \<Rightarrow>
          (case mapEvents ts envs timelineId (Suc n) es of
             Inl e \<Rightarrow> Inl e
           | Inr evs \<Rightarrow> Inr (ev # evs)))))"

definition addEvents ::
  "Runtime \<Rightarrow> DOM \<Rightarrow> (nat \<Rightarrow> Env) \<Rightarrow> jsval \<Rightarrow> jsval \<Rightarrow> bool \<Rightarrow> D3Timeline
     \<Rightarrow> (error + jsval) \<times> D3Timeline" where
  "addEvents rt doc envs evs timelineId autofit s =
     (case evs of
        JArr (e # es) \<Rightarrow>
          (case mapEvents (timelines s) envs timelineId 0 (e # es) of
             Inl err \<Rightarrow> (Inl err, s)
           | Inr addedEvents \<Rightarrow>
               (let s1 = s\<lparr>events := events s @ addedEvents\<rparr>
                in case render rt doc False s1 of
                     Inl err \<Rightarrow> (Inl err, s1)
                   | Inr _ \<Rightarrow> (Inr (JArr addedEvents), s1)))
      | _ \<Rightarrow> (Inr Null, s))"

section \<open>The date-aware serializer\<close>

datatype DateFormat = iso | timestamp | formatted

text \<open>
  The options of a \<open>JSONSerializer\<close>. The component passes a number for
  \<open>space\<close>; a string is not modelled.
\<close>

record SerializerOptions =
  dateFormat :: DateFormat
  space :: nat

definition new_JSONSerializer :: "DateFormat option \<Rightarrow> nat option \<Rightarrow> SerializerOptions" where
  "new_JSONSerializer f sp = \<lparr> dateFormat = pick iso f, space = pick 2 sp \<rparr>"

text \<open>
  \<open>dateReplacer\<close>. \<open>toISOString\<close> raises a RangeError on an invalid date;
  \<open>getTime\<close> is NaN and \<open>toLocaleString\<close> a text for it.
\<close>

definition dateReplacer :: "Runtime \<Rightarrow> DateFormat \<Rightarrow> int option \<Rightarrow> error + jsval" where
  "dateReplacer rt f v =
     (case f of
        timestamp \<Rightarrow>
          Inr (JObj [(''$type'', JStr ''Date''),
                     (''$value'', JNum (case v of None \<Rightarrow> NaN | Some t \<Rightarrow> Fin (real_of_int t)))])
      | formatted \<Rightarrow>
          (case v of
             None \<Rightarrow> Inl RangeError
           | Some t \<Rightarrow>
               Inr (JObj [(''$type'', JStr ''Date''),
                          (''$value'', JStr (toLocaleString rt v)),
                          (''$iso'', JStr (toISOString rt t))]))
      | iso \<Rightarrow>
          (case v of
             None \<Rightarrow> Inl RangeError
           | Some t \<Rightarrow> Inr (JObj [(''$type'', JStr ''Date''), (''$value'', JStr (toISOString rt t))])))"

text \<open>
  \<open>JSON.stringify(value, replacer, space)\<close>. Before the replacer sees a value, a
  \<open>Date\<close> has been turned into a string by its \<open>toJSON\<close>; so the replacer finds
  the dates as properties of the object or array it is given, and overwrites each of
  them in place with the record of \<open>dateReplacer\<close>. The record holds strings and
  numbers only: serialising it rewrites nothing and gives the record itself, with
  \<open>null\<close> for a NaN.

  \<open>serialize_held\<close> serialises a value held in a property or an element, where
  the replacer has met it as a property of its holder; it returns the JSON tree of the
  value (none for \<open>undefined\<close>) and what the property holds afterwards. When \<open>dateReplacer\<close> raises, the exception leaves
  \<open>stringify\<close>; which properties have been overwritten by then is not described.
\<close>

fun finite_or_null :: "jsnum \<Rightarrow> jsval" where
  "finite_or_null (Fin r) = JNum (Fin r)"
| "finite_or_null n = Null"

fun record_tree :: "jsval \<Rightarrow> jsval" where
  "record_tree (JObj ps) =
     JObj (map (\<lambda>(k, v). (k, case v of JNum n \<Rightarrow> finite_or_null n | _ \<Rightarrow> v)) ps)"
| "record_tree v = v"

definition date_slot :: "Runtime \<Rightarrow> DateFormat \<Rightarrow> int option \<Rightarrow> error + jsval option \<times> jsval" where
  "date_slot rt f d =
     (case dateReplacer rt f d of
        Inl e \<Rightarrow> Inl e
      | Inr r \<Rightarrow> Inr (Some (record_tree r), r))"

fun present :: "(string \<times> jsval option) list \<Rightarrow> (string \<times> jsval) list" where
  \<comment> \<open>a property whose value serialises to nothing is left out\<close>
  "present [] = []"
| "present ((k, None) # ps) = present ps"
| "present ((k, Some j) # ps) = (k, j) # present ps"

fun serialize_held :: "Runtime \<Rightarrow> DateFormat \<Rightarrow> jsval \<Rightarrow> error + jsval option \<times> jsval"
  and serialize_list :: "Runtime \<Rightarrow> DateFormat \<Rightarrow> jsval list \<Rightarrow> error + (jsval option \<times> jsval) list"
  and serialize_props ::
    "Runtime \<Rightarrow> DateFormat \<Rightarrow> (string \<times> jsval) list \<Rightarrow> error + (string \<times> jsval option \<times> jsval) list"
where
  "serialize_held rt f Undefined = Inr (None, Undefined)"
| "serialize_held rt f Null = Inr (Some Null, Null)"
| "serialize_held rt f (JBool b) = Inr (Some (JBool b), JBool b)"
| "serialize_held rt f (JNum n) = Inr (Some (finite_or_null n), JNum n)"
| "serialize_held rt f (JStr s) = Inr (Some (JStr s), JStr s)"
| "serialize_held rt f (JDate d) = date_slot rt f d"
| "serialize_held rt f (JArr xs) =
     (case serialize_list rt f xs of
        Inl e \<Rightarrow> Inl e
      | Inr rs \<Rightarrow>
          Inr (Some (JArr (map (\<lambda>r. case fst r of None \<Rightarrow> Null | Some j \<Rightarrow> j) rs)),
               JArr (map snd rs)))"
| "serialize_held rt f (JObj ps) =
     (case serialize_props rt f ps of
        Inl e \<Rightarrow> Inl e
      | Inr rs \<Rightarrow>
          Inr (Some (JObj (present (map (\<lambda>(k, r). (k, fst r)) rs))),
               JObj (map (\<lambda>(k, r). (k, snd r)) rs)))"
| "serialize_list rt f [] = Inr []"
| "serialize_list rt f (c # cs) =
     (case serialize_held rt f c of
        Inl e \<Rightarrow> Inl e
      | Inr r \<Rightarrow>
          (case serialize_list rt f cs of
             Inl e \<Rightarrow> Inl e
           | Inr rs \<Rightarrow> Inr (r # rs)))"
| "serialize_props rt f [] = Inr []"
| "serialize_props rt f ((k, c) # ps) =
     (case serialize_held rt f c of
        Inl e \<Rightarrow> Inl e
      | Inr r \<Rightarrow>
          (case serialize_props rt f ps of
             Inl e \<Rightarrow> Inl e
           | Inr rs \<Rightarrow> Inr ((k, r) # rs)))"

definition serialize :: "Runtime \<Rightarrow> DateFormat \<Rightarrow> jsval \<Rightarrow> error + jsval option \<times> jsval" where
  \<comment> \<open>the argument itself is held by nobody: if it is a date, only \<open>toJSON\<close> sees it\<close>
  "serialize rt f v =
     (case v of
        JDate d \<Rightarrow> Inr (Some (case d of None \<Rightarrow> Null | Some t \<Rightarrow> JStr (toISOString rt t)), v)
      | _ \<Rightarrow> serialize_held rt f v)"

definition stringify ::
  "Runtime \<Rightarrow> SerializerOptions \<Rightarrow> jsval \<Rightarrow> error + string option \<times> jsval" where
  \<comment> \<open>the text (none for \<open>undefined\<close>) and the argument as the call leaves it\<close>
  "stringify rt opts v =
     (case serialize rt (dateFormat opts) v of
        Inl e \<Rightarrow> Inl e
      | Inr (t, v') \<Rightarrow> Inr (map_option (JSON_write rt (space opts)) t, v'))"

text \<open>
  \<open>new Date(x)\<close>: a copy of a date, the parse of a string, else the number of
  milliseconds, clipped. An array or an object is first converted to a string.
\<close>

fun TimeClip :: "jsnum \<Rightarrow> int option" where
  "TimeClip (Fin r) =
     (if \<bar>r\<bar> \<le> 8640000000000000 then Some (if 0 \<le> r then \<lfloor>r\<rfloor> else \<lceil>r\<rceil>) else None)"
| "TimeClip n = None"

fun new_Date :: "Runtime \<Rightarrow> jsval \<Rightarrow> error + jsval" where
  "new_Date rt (JDate d) = Inr (JDate d)"
| "new_Date rt (JStr s) = Inr (JDate (Date_parse rt s))"
| "new_Date rt (JArr xs) =
     (case rt_ToString rt (JArr xs) of
        None \<Rightarrow> Inl TypeError
      | Some s \<Rightarrow> Inr (JDate (Date_parse rt s)))"
| "new_Date rt (JObj ps) =
     (case rt_ToString rt (JObj ps) of
        None \<Rightarrow> Inl TypeError
      | Some s \<Rightarrow> Inr (JDate (Date_parse rt s)))"
| "new_Date rt v = map_sum id (\<lambda>n. JDate (TimeClip n)) (ToNumber rt v)"

definition reviver :: "Runtime \<Rightarrow> DateFormat \<Rightarrow> jsval \<Rightarrow> error + jsval" where
  "reviver rt f v =
     (if strict_eq (field v ''$type'') (JStr ''Date'')
      then new_Date rt (if f = formatted \<and> truthy (field v ''$iso'')
                        then field v ''$iso'' else field v ''$value'')
      else Inr v)"

text \<open>
  \<open>JSON.parse(text, reviver)\<close> on the tree of the text: the properties of a value
  are revived before the value itself, and a property revived to \<open>undefined\<close> is
  deleted.
\<close>

fun revive :: "Runtime \<Rightarrow> DateFormat \<Rightarrow> jsval \<Rightarrow> error + jsval"
  and revive_list :: "Runtime \<Rightarrow> DateFormat \<Rightarrow> jsval list \<Rightarrow> error + jsval list"
  and revive_props :: "Runtime \<Rightarrow> DateFormat \<Rightarrow> (string \<times> jsval) list \<Rightarrow> error + (string \<times> jsval) list"
where
  "revive rt f (JArr xs) =
     (case revive_list rt f xs of Inl e \<Rightarrow> Inl e | Inr ys \<Rightarrow> reviver rt f (JArr ys))"
| "revive rt f (JObj ps) =
     (case revive_props rt f ps of
        Inl e \<Rightarrow> Inl e
      | Inr qs \<Rightarrow> reviver rt f (JObj (filter (\<lambda>q. snd q \<noteq> Undefined) qs)))"
| "revive rt f Undefined = reviver rt f Undefined"
| "revive rt f Null = reviver rt f Null"
| "revive rt f (JBool b) = reviver rt f (JBool b)"
| "revive rt f (JNum n) = reviver rt f (JNum n)"
| "revive rt f (JStr s) = reviver rt f (JStr s)"
| "revive rt f (JDate d) = reviver rt f (JDate d)"
| "revive_list rt f [] = Inr []"
| "revive_list rt f (c # cs) =
     (case revive rt f c of
        Inl e \<Rightarrow> Inl e
      | Inr y \<Rightarrow> (case revive_list rt f cs of Inl e \<Rightarrow> Inl e | Inr ys \<Rightarrow> Inr (y # ys)))"
| "revive_props rt f [] = Inr []"
| "revive_props rt f ((k, c) # ps) =
     (case revive rt f c of
        Inl e \<Rightarrow> Inl e
      | Inr y \<Rightarrow> (case revive_props rt f ps of Inl e \<Rightarrow> Inl e | Inr qs \<Rightarrow> Inr ((k, y) # qs)))"

definition parse :: "Runtime \<Rightarrow> SerializerOptions \<Rightarrow> string \<Rightarrow> error + jsval" where
  "parse rt opts text =
     (case JSON_read rt text of
        None \<Rightarrow> Inl SyntaxError
      | Some j \<Rightarrow> revive rt (dateFormat opts) j)"

definition deepClone :: "Runtime \<Rightarrow> SerializerOptions \<Rightarrow> jsval \<Rightarrow> error + jsval" where
  \<comment> \<open>\<open>this.parse(this.stringify(obj))\<close>; the text of \<open>undefined\<close> is \<open>undefined\<close>, read as the text "undefined"\<close>
  "deepClone rt opts obj =
     (case stringify rt opts obj of
        Inl e \<Rightarrow> Inl e
      | Inr (None, _) \<Rightarrow> Inl SyntaxError
      | Inr (Some text, _) \<Rightarrow> parse rt opts text)"

definition deepEqual :: "Runtime \<Rightarrow> SerializerOptions \<Rightarrow> jsval \<Rightarrow> jsval \<Rightarrow> error + bool" where
  \<comment> \<open>\<open>this.stringify(a) === this.stringify(b)\<close>\<close>
  "deepEqual rt opts a b =
     (case stringify rt opts a of
        Inl e \<Rightarrow> Inl e
      | Inr (x, _) \<Rightarrow>
          (case stringify rt opts b of
             Inl e \<Rightarrow> Inl e
           | Inr (y, _) \<Rightarrow> Inr (x = y)))"

section \<open>Export and import\<close>

text \<open>
  Spreads. \<open>[...v]\<close> needs an iterable: an array or a string, else a TypeError.
  \<open>{...v}\<close> copies the own enumerable properties of anything: those of an object,
  the indices of an array or of a string, none otherwise.
\<close>

fun spread_iterable :: "jsval \<Rightarrow> error + jsval list" where
  "spread_iterable (JArr xs) = Inr xs"
| "spread_iterable (JStr s) = Inr (map (\<lambda>c. JStr [c]) s)"
| "spread_iterable v = Inl TypeError"

function decimal :: "nat \<Rightarrow> string" where
  "decimal n = (if n < 10 then [char_of (48 + n)] else decimal (n div 10) @ [char_of (48 + n mod 10)])"
  by pat_completeness auto
termination
  by (relation "measure id") auto

fun indexed :: "nat \<Rightarrow> jsval list \<Rightarrow> (string \<times> jsval) list" where
  "indexed n [] = []"
| "indexed n (x # xs) = (decimal n, x) # indexed (Suc n) xs"

fun spread_object :: "jsval \<Rightarrow> (string \<times> jsval) list" where
  "spread_object (JObj ps) = ps"
| "spread_object (JArr xs) = indexed 0 xs"
| "spread_object (JStr s) = indexed 0 (map (\<lambda>c. JStr [c]) s)"
| "spread_object v = []"

definition exportData :: "D3Timeline \<Rightarrow> jsval" where
  "exportData s =
     JObj [(''timelines'', JArr (timelines s)),
           (''events'', JArr (events s)),
           (''timeRange'', JObj (spread_object (timeRange s)))]"

text \<open>
  The exported arrays and the exported range are copies, but what they hold is shared
  with the instance. A date held by a copy is replaced in the copy; any other value is
  the instance's own and is rewritten inside.
\<close>

fun shared :: "jsval \<Rightarrow> jsval \<Rightarrow> jsval" where
  \<comment> \<open>what the instance holds where its copy held \<open>orig\<close> and now holds \<open>now\<close>\<close>
  "shared (JDate d) now = JDate d"
| "shared orig now = now"

fun elements :: "jsval \<Rightarrow> jsval list" where
  "elements (JArr xs) = xs"
| "elements v = []"

fun properties :: "jsval \<Rightarrow> (string \<times> jsval) list" where
  "properties (JObj ps) = ps"
| "properties v = []"

definition after_stringify :: "D3Timeline \<Rightarrow> jsval \<Rightarrow> D3Timeline" where
  \<comment> \<open>the instance once \<open>stringify\<close> has left the exported data as \<open>data\<close>\<close>
  "after_stringify s data =
     s \<lparr> timelines := map2 shared (timelines s) (elements (field data ''timelines'')),
         events := map2 shared (events s) (elements (field data ''events'')),
         timeRange :=
           (case timeRange s of
              JObj ps \<Rightarrow>
                JObj (map2 (\<lambda>p q. (fst p, shared (snd p) (snd q))) ps
                        (properties (field data ''timeRange'')))
            | v \<Rightarrow> v) \<rparr>"

definition exportDataString ::
  "Runtime \<Rightarrow> bool \<Rightarrow> D3Timeline \<Rightarrow> error + string option \<times> D3Timeline" where
  "exportDataString rt autoFormat s =
     (case stringify rt (new_JSONSerializer None (Some (if autoFormat then 2 else 0)))
             (exportData s) of
        Inl e \<Rightarrow> Inl e
      | Inr (text, data) \<Rightarrow> Inr (text, after_stringify s data))"

text \<open>
  \<open>importData\<close>: the body of the \<open>try\<close>, then the \<open>catch\<close>, which logs and
  returns \<open>false\<close>.
\<close>

definition importData_try ::
  "Runtime \<Rightarrow> DOM \<Rightarrow> jsval \<Rightarrow> D3Timeline \<Rightarrow> (error + bool) \<times> D3Timeline" where
  "importData_try rt doc data s =
     (case get_prop data ''timelines'' of
        Inl e \<Rightarrow> (Inl e, s)
      | Inr ts \<Rightarrow>
     (case spread_iterable ts of
        Inl e \<Rightarrow> (Inl e, s)
      | Inr timelines' \<Rightarrow>
          (let s1 = s\<lparr>timelines := timelines'\<rparr>
           in case spread_iterable (field data ''events'') of
                Inl e \<Rightarrow> (Inl e, s1)
              | Inr events' \<Rightarrow>
                  (let s2 = s1\<lparr>events := events'\<rparr>;
                       s3 = s2\<lparr>timeRange := JObj (spread_object (field data ''timeRange''))\<rparr>
                   in case resize rt doc s3 of
                        (Inl e, s4) \<Rightarrow> (Inl e, s4)
                      | (Inr _, s4) \<Rightarrow> (Inr True, s4)))))"

definition importData ::
  "Runtime \<Rightarrow> DOM \<Rightarrow> jsval \<Rightarrow> D3Timeline \<Rightarrow> (error + bool) \<times> D3Timeline" where
  "importData rt doc data s =
     (case importData_try rt doc data s of
        (Inl e, s') \<Rightarrow> (Inr False, s'\<lparr>logged := logged s' @ [e]\<rparr>)
      | (Inr b, s') \<Rightarrow> (Inr b, s'))"

definition importDataString ::
  "Runtime \<Rightarrow> DOM \<Rightarrow> string \<Rightarrow> D3Timeline \<Rightarrow> (error + bool) \<times> D3Timeline" where
  \<comment> \<open>the argument \<open>new JSONSerializer().parse(data)\<close> is evaluated before the call\<close>
  "importDataString rt doc text s =
     (case parse rt (new_JSONSerializer None None) text of
        Inl e \<Rightarrow> (Inl e, s)
      | Inr data \<Rightarrow> importData rt doc data s)"

section \<open>Notions used by the statements\<close>

text \<open>An identifier resolves when \<open>find\<close> returns a timeline for it.\<close>

definition resolves :: "jsval list \<Rightarrow> jsval \<Rightarrow> bool" where
  "resolves ts i = (case find_by_id ts i of Inr (Some t) \<Rightarrow> True | _ \<Rightarrow> False)"

text \<open>The type \<open>ID = number | string\<close>.\<close>

fun is_ID :: "jsval \<Rightarrow> bool" where
  "is_ID (JNum n) = True"
| "is_ID (JStr s) = True"
| "is_ID v = False"

text \<open>
  The classification of a stored event with respect to the configuration it was made
  from: no end time supplied, or an end time supplied.
\<close>

definition classified :: "jsval \<Rightarrow> jsval \<Rightarrow> bool" where
  "classified event stored =
     (case field event ''endTime'' of
        Undefined \<Rightarrow>
          field stored ''type'' = JStr ''point''
          \<and> (case field event ''startTime'' of
                JDate a \<Rightarrow> field stored ''endTime'' = JDate a
              | _ \<Rightarrow> True)
      | JDate d \<Rightarrow>
          field stored ''type'' = JStr ''range'' \<and> field stored ''endTime'' = JDate d
      | _ \<Rightarrow> True)"

text \<open>
  A sequence of \<open>addTimeline\<close> calls, each with what it reads from the outside, and
  the entry that a call appends.
\<close>

type_synonym addTimeline_call = "DOM \<times> Env \<times> string \<times> string option \<times> jsval \<times> bool"

fun addTimeline_calls :: "Runtime \<Rightarrow> addTimeline_call list \<Rightarrow> D3Timeline \<Rightarrow> D3Timeline" where
  "addTimeline_calls rt [] s = s"
| "addTimeline_calls rt ((doc, env, name, color, i, autofit) # cs) s =
     addTimeline_calls rt cs (snd (addTimeline rt doc env name color i autofit s))"

fun timeline_entry :: "addTimeline_call \<Rightarrow> jsval" where
  "timeline_entry (doc, env, name, color, i, autofit) =
     JObj [(''id'', if nullish i then generateID env else i),
           (''name'', JStr name),
           (''color'', JStr (case color of None \<Rightarrow> ''#667eea'' | Some c \<Rightarrow> c))]"

text \<open>
  The stage group of an identifier, in the words of the specification: the events that
  have a stage with this identifier. An event is typed when its stage is absent or an
  \<open>EventStage\<close>, an object with an id of type \<open>ID\<close> and a numeric index.
\<close>

definition stage_members :: "jsval \<Rightarrow> jsval list \<Rightarrow> jsval list" where
  "stage_members k es =
     filter (\<lambda>e. truthy (field e ''stage'') \<and> field (field e ''stage'') ''id'' = k) es"

definition has_typed_stage :: "jsval \<Rightarrow> bool" where
  "has_typed_stage e =
     (case field e ''stage'' of
        Undefined \<Rightarrow> True
      | JObj ps \<Rightarrow>
          is_ID (field (JObj ps) ''id'')
          \<and> (case field (JObj ps) ''index'' of JNum n \<Rightarrow> True | _ \<Rightarrow> False)
      | _ \<Rightarrow> False)"

text \<open>
  Auxiliary notions for the stage groups: the events stored under a key of the
  \<open>Map\<close>, an event that is typed and has a stage, and a rendered line that connects
  the events of a group.
\<close>

definition lookup_group :: "(jsval \<times> jsval list) list \<Rightarrow> jsval \<Rightarrow> jsval list" where
  "lookup_group gs k = (case map_of gs k of None \<Rightarrow> [] | Some es \<Rightarrow> es)"

definition staged :: "jsval \<Rightarrow> bool" where
  "staged e = (\<not> nullish e \<and> has_typed_stage e \<and> truthy (field e ''stage''))"

definition draws :: "StageLine \<Rightarrow> jsval \<times> jsval list \<Rightarrow> bool" where
  "draws l g = (sg_id l = fst g \<and> length (sg_pieces l) = length (snd g)
                 \<and> set (sg_members l) = set (snd g))"

text \<open>
  A value as JSON carries it: a property whose value is \<open>undefined\<close> is absent,
  \<open>undefined\<close> in an array and a number that is not finite are \<open>null\<close>. Dates
  are kept.
\<close>

fun json_norm :: "jsval \<Rightarrow> jsval"
  and json_norm_list :: "jsval list \<Rightarrow> jsval list"
  and json_norm_props :: "(string \<times> jsval) list \<Rightarrow> (string \<times> jsval) list"
where
  "json_norm (JNum n) = finite_or_null n"
| "json_norm (JArr xs) = JArr (json_norm_list xs)"
| "json_norm (JObj ps) = JObj (json_norm_props ps)"
| "json_norm Undefined = Undefined"
| "json_norm Null = Null"
| "json_norm (JBool b) = JBool b"
| "json_norm (JStr s) = JStr s"
| "json_norm (JDate d) = JDate d"
| "json_norm_list [] = []"
| "json_norm_list (x # xs) = (if x = Undefined then Null else json_norm x) # json_norm_list xs"
| "json_norm_props [] = []"
| "json_norm_props ((k, v) # ps) =
     (if v = Undefined then json_norm_props ps else (k, json_norm v) # json_norm_props ps)"

text \<open>
  What the round trip asks of the runtime for one date, by format: the ISO text parses
  back to the time value; a time value is within the range of dates.
\<close>

definition date_ok :: "Runtime \<Rightarrow> DateFormat \<Rightarrow> int \<Rightarrow> bool" where
  "date_ok rt f t =
     (case f of
        iso \<Rightarrow> Date_parse rt (toISOString rt t) = Some t
      | timestamp \<Rightarrow> \<bar>t\<bar> \<le> 8640000000000000
      | formatted \<Rightarrow> toISOString rt t \<noteq> [] \<and> Date_parse rt (toISOString rt t) = Some t)"

text \<open>
  A value that can be exported: its dates are valid and held in properties or elements,
  its objects have each key once, and none of its objects carries the tag
  \<open>$type: "Date"\<close> of a date record.
\<close>

fun exportable :: "Runtime \<Rightarrow> DateFormat \<Rightarrow> jsval \<Rightarrow> bool"
  and exportable_list :: "Runtime \<Rightarrow> DateFormat \<Rightarrow> jsval list \<Rightarrow> bool"
  and exportable_props :: "Runtime \<Rightarrow> DateFormat \<Rightarrow> (string \<times> jsval) list \<Rightarrow> bool"
where
  "exportable rt f (JDate d) = (case d of None \<Rightarrow> False | Some t \<Rightarrow> date_ok rt f t)"
| "exportable rt f (JArr xs) = exportable_list rt f xs"
| "exportable rt f (JObj ps) =
     (distinct (map fst ps) \<and> map_of ps ''$type'' \<noteq> Some (JStr ''Date'')
      \<and> exportable_props rt f ps)"
| "exportable rt f Undefined = True"
| "exportable rt f Null = True"
| "exportable rt f (JBool b) = True"
| "exportable rt f (JNum n) = True"
| "exportable rt f (JStr s) = True"
| "exportable_list rt f [] = True"
| "exportable_list rt f (x # xs) = (exportable rt f x \<and> exportable_list rt f xs)"
| "exportable_props rt f [] = True"
| "exportable_props rt f ((k, v) # ps) = (exportable rt f v \<and> exportable_props rt f ps)"

text \<open>A value that holds a date in a property or an element, at any depth.\<close>

fun is_date :: "jsval \<Rightarrow> bool" where
  "is_date (JDate d) = True"
| "is_date v = False"

fun holds_date :: "jsval \<Rightarrow> bool"
  and holds_date_list :: "jsval list \<Rightarrow> bool"
  and holds_date_props :: "(string \<times> jsval) list \<Rightarrow> bool"
where
  "holds_date (JArr xs) = holds_date_list xs"
| "holds_date (JObj ps) = holds_date_props ps"
| "holds_date Undefined = False"
| "holds_date Null = False"
| "holds_date (JBool b) = False"
| "holds_date (JNum n) = False"
| "holds_date (JStr s) = False"
| "holds_date (JDate d) = False"
| "holds_date_list [] = False"
| "holds_date_list (x # xs) = (is_date x \<or> holds_date x \<or> holds_date_list xs)"
| "holds_date_props [] = False"
| "holds_date_props ((k, v) # ps) = (is_date v \<or> holds_date v \<or> holds_date_props ps)"

text \<open>
  Typed data, as far as the round trip needs it: a timeline or an event is an object with
  an identifier that is a string or a finite number; the stage of an event is absent or
  an object with such an identifier and a finite index.
\<close>

fun finite_ID :: "jsval \<Rightarrow> bool" where
  "finite_ID (JStr s) = True"
| "finite_ID (JNum (Fin r)) = True"
| "finite_ID v = False"

fun is_object :: "jsval \<Rightarrow> bool" where
  "is_object (JObj ps) = True"
| "is_object v = False"

definition typed_timeline :: "jsval \<Rightarrow> bool" where
  "typed_timeline t = (is_object t \<and> finite_ID (field t ''id''))"

definition typed_event :: "jsval \<Rightarrow> bool" where
  "typed_event e =
     (is_object e \<and> finite_ID (field e ''id'')
      \<and> (case field e ''stage'' of
            Undefined \<Rightarrow> True
          | JObj st \<Rightarrow>
              finite_ID (field (JObj st) ''id'')
              \<and> (case field (JObj st) ''index'' of JNum (Fin r) \<Rightarrow> True | _ \<Rightarrow> False)
          | _ \<Rightarrow> False))"

section \<open>A worked example\<close>

definition example_base :: Runtime where
  "example_base =
     \<lparr> rt_ToNumber = (\<lambda>v. Some NaN),
       rt_ToString = (\<lambda>v. Some ''[object Object]''),
       toISOString = (\<lambda>t. if t = 0 then ''1970-01-01T00:00:00.000Z''
                           else if t = 864000000 then ''1970-01-11T00:00:00.000Z''
                           else if t = 1728000000 then ''1970-01-21T00:00:00.000Z''
                           else ''other''),
       toLocaleString = (\<lambda>t. ''local''),
       Date_parse = (\<lambda>x. if x = ''1970-01-01T00:00:00.000Z'' then Some 0
                          else if x = ''1970-01-11T00:00:00.000Z'' then Some 864000000
                          else if x = ''1970-01-21T00:00:00.000Z'' then Some 1728000000
                          else None),
       JSON_write = (\<lambda>space v. []),
       JSON_read = (\<lambda>text. None) \<rparr>"

definition example_doc :: DOM where
  "example_doc =
     \<lparr> container = \<lparr>clientWidth = 800, clientHeight = 400\<rparr>,
       rendered_timelines = 0,
       rendered_events = [],
       xScale = (\<lambda>v. case v of JDate (Some t) \<Rightarrow> real_of_int t / 3600000 | _ \<Rightarrow> 0) \<rparr>"

definition example_env :: "nat \<Rightarrow> Env" where
  "example_env n =
     \<lparr> generateID = JStr (''g'' @ replicate n CHR ''x''), now_start = 5, now_end = 6 \<rparr>"

text \<open>An instance with one timeline \<open>dev\<close>, and one with a timeline whose id is 0.\<close>

definition example_instance :: D3Timeline where
  "example_instance =
     (init (resolve_size \<lparr>clientWidth = 800, clientHeight = 400\<rparr>
              (merge_options (defaultOptions (JStr ''t'')) no_options)) 0 1728000000)
       \<lparr> timelines := [JObj [(''id'', JStr ''dev''), (''name'', JStr ''Dev''),
                            (''color'', JStr ''#667eea'')]] \<rparr>"

definition example_instance_zero :: D3Timeline where
  "example_instance_zero =
     example_instance
       \<lparr> timelines := [JObj [(''id'', JNum (Fin 0)), (''name'', JStr ''Dev''),
                            (''color'', JStr ''#667eea'')]] \<rparr>"

text \<open>
  An instance with two timelines and three events: a point event at day 0 and a range
  event over days 10 to 20 that share the stage \<open>s1\<close>, and a point event without
  stage.
\<close>

definition example_timelines :: "jsval list" where
  "example_timelines =
     [JObj [(''id'', JStr ''dev''), (''name'', JStr ''Dev''), (''color'', JStr ''#667eea'')],
      JObj [(''id'', JStr ''ops''), (''name'', JStr ''Ops''), (''color'', JStr ''#f093fb'')]]"

definition example_events :: "jsval list" where
  "example_events =
     [JObj [(''id'', JStr ''e1''), (''timelineId'', JStr ''dev''), (''title'', JStr ''kickoff''),
            (''description'', JStr []), (''startTime'', JDate (Some 0)),
            (''endTime'', JDate (Some 0)), (''color'', JStr ''#667eea''),
            (''type'', JStr ''point''),
            (''stage'', JObj [(''id'', JStr ''s1''), (''index'', JNum (Fin 0))])],
      JObj [(''id'', JStr ''e2''), (''timelineId'', JStr ''ops''), (''title'', JStr ''build''),
            (''description'', JStr []), (''startTime'', JDate (Some 864000000)),
            (''endTime'', JDate (Some 1728000000)), (''color'', JStr ''#f093fb''),
            (''type'', JStr ''range''),
            (''stage'', JObj [(''id'', JStr ''s1''), (''index'', JNum (Fin 1))])],
      JObj [(''id'', JStr ''e3''), (''timelineId'', JStr ''dev''), (''title'', JStr ''note''),
            (''description'', JStr []), (''startTime'', JDate (Some 0)),
            (''endTime'', JDate (Some 0)), (''color'', JStr ''#667eea''),
            (''type'', JStr ''point''), (''stage'', Undefined)]]"

definition example_instance2 :: D3Timeline where
  "example_instance2 =
     example_instance \<lparr> timelines := example_timelines, events := example_events \<rparr>"

text \<open>
  The text layer of the example runtime knows one text, which stands for the JSON text
  of the exported example, and reads it back as the tree it was written from.
\<close>

definition example_tree :: jsval where
  "example_tree =
     (case serialize example_base iso (exportData example_instance2) of
        Inr (Some j, v) \<Rightarrow> j
      | _ \<Rightarrow> Null)"

definition example_runtime :: Runtime where
  "example_runtime =
     example_base
       \<lparr> JSON_write := (\<lambda>space v. if v = example_tree then ''<export>'' else ''<other>''),
         JSON_read := (\<lambda>text. if text = ''<export>'' then Some example_tree else None) \<rparr>"

section \<open>Properties of construction\<close>

lemma width_resolve_size:
  "width (resolve_size c (merge_options (defaultOptions gid) u)) = resolved_width c u"
  by (simp add: resolve_size_def merge_options_def defaultOptions_def resolved_width_def
      pick_def Let_def split: option.split)



section \<open>Properties of the zoom scale extent\<close>

text \<open>
  What \<open>setupZoom\<close> computes when the range and \<open>zoomMin\<close> are not zero: the
  upper bound is \<open>max(1, span / zoomMin)\<close>, the lower bound is
  \<open>max(1, zoomMax / span)\<close>.
\<close>

lemma setupZoom_bounds:
  assumes "start_ms \<noteq> end_ms" and "zoomMin opts \<noteq> 0"
  shows "setupZoom opts start_ms end_ms =
           (Fin (max 1 (zoomMax opts / real_of_int (end_ms - start_ms))),
            Fin (max 1 (real_of_int (end_ms - start_ms) / zoomMin opts)))"
  using assms by (simp add: setupZoom_def js_div_def initialRange_def Let_def)

text \<open>
  C1. With the default options and the default range of twenty years
  (631152000000 ms, from 2016-11-02 to 2036-11-02), the instance is built with the lower
  bound 1, while \<open>max(1, span / zoomMax)\<close> is above 20: the quotient for the lower
  bound is taken the other way round from the one for the upper bound.
\<close>

theorem setupZoom_lower_bound_default:
  "(\<exists>s. constructor (JStr ''t'') 1478044800000 2109196800000
           \<lparr>clientWidth = 800, clientHeight = 400\<rparr> no_options = Inr s
        \<and> fst (scaleExtent s) = Fin 1
        \<and> snd (scaleExtent s) = Fin (max 1 (631152000000 / zoomMin (options s))))
   \<and> max 1 (631152000000 / zoomMax (defaultOptions (JStr ''t''))) > (20::real)"
  by (simp add: constructor_def resolve_size_def merge_options_def defaultOptions_def
      no_options_def pick_def init_def setupZoom_def js_div_def initialRange_def Let_def)


section \<open>Properties of adding events\<close>

lemmas run_defs =
  addEvent_def addEvents_def addTimeline_def removeTimeline_def resize_def render_def
  renderTimelines_def renderEvents_def renderStageLines_def timeline_of_def
  eventData_def field_def or_else_def nullish_else_def pick_def calculateHeight_def Let_def

lemmas example_defs =
  example_instance_def example_instance_zero_def example_runtime_def example_base_def
  example_doc_def
  example_env_def init_def resolve_size_def merge_options_def defaultOptions_def
  no_options_def setupZoom_def js_div_def initialRange_def


lemma find_by_id_total:
  "\<forall>t\<in>set ts. \<not> nullish t \<Longrightarrow> \<exists>r. find_by_id ts i = Inr r"
  by (induction ts) (auto split: sum.splits elim: nullish.elims)

lemma get_prop_field: "\<not> nullish v \<Longrightarrow> get_prop v k = Inr (field v k)"
  by (cases v) (auto simp: field_def)

lemma eventData_ok:
  "\<not> nullish e \<Longrightarrow> \<exists>ev. eventData env e i t = Inr ev"
  by (simp add: eventData_def)

lemma target_eq:
  "\<not> nullish x \<Longrightarrow>
     (if nullish tid then get_prop x ''timelineId'' else Inr tid)
       = Inr (nullish_else tid (field x ''timelineId''))"
  by (simp add: nullish_else_def get_prop_field)

lemma mapEvents_throws:
  assumes "\<forall>t\<in>set ts. \<not> nullish t" and "\<forall>e\<in>set evs. \<not> nullish e"
    and "e \<in> set evs" and "\<not> resolves ts (nullish_else tid (field e ''timelineId''))"
  shows "\<exists>msg. mapEvents ts envs tid n evs = Inl (Error msg)"
  using assms(2-4)
proof (induction evs arbitrary: n)
  case Nil
  then show ?case by simp
next
  case (Cons x xs)
  have nx: "\<not> nullish x" using Cons.prems(1) by simp
  let ?tg = "nullish_else tid (field x ''timelineId'')"
  obtain r where r: "find_by_id ts ?tg = Inr r"
    using find_by_id_total[OF assms(1)] by blast
  obtain ev where ev: "\<And>t. \<exists>ev. eventData (envs n) x ?tg t = Inr ev"
    using eventData_ok[OF nx] by blast
  show ?case
  proof (cases "truthy ?tg \<and> r \<noteq> None")
    case False
    then show ?thesis using r by (auto simp: target_eq[OF nx])
  next
    case True
    then obtain t where t: "r = Some t" by auto
    from True t r have "resolves ts ?tg" by (simp add: resolves_def)
    with Cons.prems(2,3) have "e \<in> set xs" by auto
    from Cons.IH[OF _ this Cons.prems(3)] Cons.prems(1)
    obtain msg where "mapEvents ts envs tid (Suc n) xs = Inl (Error msg)" by auto
    with True r t ev[of t] show ?thesis
      by (auto simp: target_eq[OF nx])
  qed
qed

text \<open>
  C2. In an instance whose timelines are objects: when the identifier given to
  \<open>addEvent\<close> does not resolve, \<open>addEvent\<close> returns \<open>null\<close> and leaves the
  instance as it was; when the identifier of an event of a batch
  (\<open>timelineId ?? event.timelineId\<close>) does not resolve, \<open>addEvents\<close> throws an
  \<open>Error\<close>, and leaves the instance as it was.
\<close>

theorem addEvent_null_addEvents_throws:
  assumes "\<forall>t\<in>set (timelines s). \<not> nullish t"
  shows "(\<not> resolves (timelines s) tid \<longrightarrow>
            addEvent rt doc env e tid af s = (Inr Null, s))
       \<and> ((\<forall>x\<in>set evs. \<not> nullish x) \<and> e \<in> set evs
            \<and> \<not> resolves (timelines s) (nullish_else tid (field e ''timelineId'')) \<longrightarrow>
            (\<exists>msg. addEvents rt doc envs (JArr evs) tid af s = (Inl (Error msg), s)))"
proof (intro conjI impI)
  assume "\<not> resolves (timelines s) tid"
  then show "addEvent rt doc env e tid af s = (Inr Null, s)"
    using find_by_id_total[OF assms, of tid]
    by (auto simp: addEvent_def resolves_def split: option.splits)
next
  assume a: "(\<forall>x\<in>set evs. \<not> nullish x) \<and> e \<in> set evs
            \<and> \<not> resolves (timelines s) (nullish_else tid (field e ''timelineId''))"
  then obtain msg where "mapEvents (timelines s) envs tid 0 evs = Inl (Error msg)"
    using mapEvents_throws[OF assms, of evs e tid envs 0] by blast
  moreover from a obtain x xs where "evs = x # xs" by (cases evs) auto
  ultimately show "\<exists>msg. addEvents rt doc envs (JArr evs) tid af s = (Inl (Error msg), s)"
    by (simp add: addEvents_def)
qed


theorem addEvent_null_addEvents_throws_witness:
  "addEvent example_runtime example_doc (example_env 0)
      (JObj [(''title'', JStr ''kickoff'')]) (JStr ''ops'') True example_instance
     = (Inr Null, example_instance)
   \<and> (\<exists>msg. addEvents example_runtime example_doc example_env
          (JArr [JObj [(''title'', JStr ''kickoff'')]]) (JStr ''ops'') True example_instance
        = (Inl (Error msg), example_instance))"
proof -
  have h: "\<forall>t\<in>set (timelines example_instance). \<not> nullish t"
    by (simp add: example_instance_def)
  have u: "\<not> resolves (timelines example_instance) (JStr ''ops'')"
    by (simp add: example_instance_def resolves_def)
  have u': "\<not> resolves (timelines example_instance)
              (nullish_else (JStr ''ops'') (field (JObj [(''title'', JStr ''kickoff'')]) ''timelineId''))"
    using u by (simp add: nullish_else_def)
  show ?thesis
    using addEvent_null_addEvents_throws [OF h, of "JStr ''ops''" example_runtime example_doc
        "example_env 0" "JObj [(''title'', JStr ''kickoff'')]" True
        "[JObj [(''title'', JStr ''kickoff'')]]" example_env] u u'
    by simp
qed


lemma eventData_classified:
  assumes "eventData env e i t = Inr ev"
  shows "classified e ev"
proof -
  have ty: "field ev ''type''
              = (if truthy (field e ''endTime'') then JStr ''range'' else JStr ''point'')"
    using assms by (auto simp: eventData_def field_def split: if_splits)
  have en: "field ev ''endTime''
              = or_else (field e ''endTime'')
                  (or_else (field e ''startTime'') (JDate (Some (now_end env))))"
    using assms by (auto simp: eventData_def field_def split: if_splits)
  show ?thesis
    unfolding classified_def ty en
    by (cases "field e ''endTime''"; cases "field e ''startTime''"; simp add: or_else_def)
qed

lemma mapEvents_classified:
  "mapEvents ts envs tid n evs = Inr out \<Longrightarrow> list_all2 classified evs out"
proof (induction evs arbitrary: n out)
  case Nil
  then show ?case by simp
next
  case (Cons x xs)
  then show ?case
    by (auto split: sum.splits if_splits option.splits dest: eventData_classified)
qed

text \<open>
  C5. An event returned by \<open>addEvent\<close>, and each event returned by
  \<open>addEvents\<close>, is the one appended to the events, and is classified by the
  configuration it was made from: without an end time its type is \<open>point\<close> and its
  end time is the start time supplied; with an end time its type is \<open>range\<close> and its
  end time the one supplied.
\<close>

theorem accepted_event_classified:
  "(addEvent rt doc env e tid af s = (Inr ev, s') \<and> ev \<noteq> Null \<longrightarrow>
       classified e ev \<and> events s' = events s @ [ev])
   \<and> (addEvents rt doc envs (JArr evs) tid af s = (Inr (JArr out), s') \<longrightarrow>
       list_all2 classified evs out \<and> events s' = events s @ out)"
proof -
  have single: "classified e ev \<and> events s' = events s @ [ev]"
    if "addEvent rt doc env e tid af s = (Inr ev, s') \<and> ev \<noteq> Null"
    using that
    by (auto simp: addEvent_def Let_def
             split: sum.splits option.splits if_splits dest: eventData_classified)
  have batch: "list_all2 classified evs out \<and> events s' = events s @ out"
    if "addEvents rt doc envs (JArr evs) tid af s = (Inr (JArr out), s')"
    using that
    by (cases evs)
       (auto simp: addEvents_def Let_def simp del: mapEvents.simps
             split: sum.splits dest: mapEvents_classified)
  from single batch show ?thesis by blast
qed


theorem accepted_event_classified_witness:
  "(\<exists>ev s'. addEvent example_runtime example_doc (example_env 0)
        (JObj [(''title'', JStr ''kickoff''), (''startTime'', JDate (Some 0))])
        (JStr ''dev'') True example_instance = (Inr ev, s')
      \<and> ev \<noteq> Null
      \<and> classified (JObj [(''title'', JStr ''kickoff''), (''startTime'', JDate (Some 0))]) ev
      \<and> field ev ''type'' = JStr ''point'' \<and> field ev ''endTime'' = JDate (Some 0))
   \<and> (\<exists>out s'. addEvents example_runtime example_doc example_env
        (JArr [JObj [(''startTime'', JDate (Some 864000000)),
                     (''endTime'', JDate (Some 1728000000))]])
        (JStr ''dev'') True example_instance = (Inr (JArr out), s')
      \<and> list_all2 classified
            [JObj [(''startTime'', JDate (Some 864000000)),
                   (''endTime'', JDate (Some 1728000000))]] out
      \<and> map (\<lambda>ev. field ev ''type'') out = [JStr ''range''])"
proof -
  let ?e = "JObj [(''title'', JStr ''kickoff''), (''startTime'', JDate (Some 0))]"
  let ?ev = "JObj [(''id'', JStr ''g''), (''timelineId'', JStr ''dev''),
                   (''title'', JStr ''kickoff''), (''description'', JStr []),
                   (''startTime'', JDate (Some 0)), (''endTime'', JDate (Some 0)),
                   (''color'', JStr ''#667eea''), (''type'', JStr ''point''),
                   (''stage'', Undefined)]"
  let ?r = "JObj [(''startTime'', JDate (Some 864000000)), (''endTime'', JDate (Some 1728000000))]"
  let ?rv = "JObj [(''id'', JStr ''g''), (''timelineId'', JStr ''dev''),
                   (''title'', JStr []), (''description'', JStr []),
                   (''startTime'', JDate (Some 864000000)),
                   (''endTime'', JDate (Some 1728000000)),
                   (''color'', JStr ''#667eea''), (''type'', JStr ''range''),
                   (''stage'', Undefined)]"
  have one: "addEvent example_runtime example_doc (example_env 0) ?e (JStr ''dev'') True
               example_instance
             = (Inr ?ev, example_instance\<lparr>events := events example_instance @ [?ev]\<rparr>)"
    by (simp add: run_defs example_defs)
  have many: "addEvents example_runtime example_doc example_env (JArr [?r]) (JStr ''dev'') True
               example_instance
             = (Inr (JArr [?rv]), example_instance\<lparr>events := events example_instance @ [?rv]\<rparr>)"
    by (simp add: run_defs example_defs)
  have c1: "classified ?e ?ev"
    using accepted_event_classified [where rt = example_runtime and doc = example_doc
        and env = "example_env 0" and e = ?e and tid = "JStr ''dev''" and af = True
        and s = example_instance and ev = ?ev
        and s' = "example_instance\<lparr>events := events example_instance @ [?ev]\<rparr>"] one
    by simp
  have c2: "list_all2 classified [?r] [?rv]"
    using accepted_event_classified [where rt = example_runtime and doc = example_doc
        and envs = example_env and evs = "[?r]" and tid = "JStr ''dev''" and af = True
        and s = example_instance and out = "[?rv]"
        and s' = "example_instance\<lparr>events := events example_instance @ [?rv]\<rparr>"] many
    by simp
  show ?thesis
    using one many c1 c2 by (simp add: field_def)
qed


section \<open>Properties of adding and removing timelines\<close>

lemma resize_data:
  "timelines (snd (resize rt doc s)) = timelines s"
  "events (snd (resize rt doc s)) = events s"
  by (simp_all add: resize_def Let_def)

lemma addTimeline_timelines:
  "timelines (snd (addTimeline rt doc env name color i af s))
     = timelines s @ [timeline_entry (doc, env, name, color, i, af)]"
  by (simp add: addTimeline_def resize_def Let_def nullish_else_def pick_def
           split: prod.splits sum.splits option.splits)

lemma addTimeline_calls_timelines:
  "timelines (addTimeline_calls rt cs s) = timelines s @ map timeline_entry cs"
proof (induction cs arbitrary: s)
  case Nil
  then show ?case by simp
next
  case (Cons c cs)
  obtain doc env name color i af where c: "c = (doc, env, name, color, i, af)"
    by (cases c) auto
  show ?case
    unfolding c by (simp add: Cons.IH addTimeline_timelines del: timeline_entry.simps)
qed

lemma filter_prop_ne_filter:
  "\<forall>x\<in>set xs. \<not> nullish x \<Longrightarrow>
     filter_prop_ne k i xs = Inr (filter (\<lambda>x. \<not> strict_eq (field x k) i) xs)"
  by (induction xs) (simp_all add: get_prop_field)

text \<open>
  C6. After a sequence of N \<open>addTimeline\<close> calls on a new instance the timelines are
  the N entries of the calls, in the order of the calls. In an instance whose timelines
  and events are objects, \<open>removeTimeline(id)\<close> leaves exactly the timelines whose id is
  not \<open>id\<close> and exactly the events whose \<open>timelineId\<close> is not \<open>id\<close>, each in
  its place among the others.
\<close>

theorem addTimeline_order_removeTimeline_cascade:
  "(constructor gid a b c u = Inr s0 \<longrightarrow>
      timelines (addTimeline_calls rt cs s0) = map timeline_entry cs
      \<and> length (timelines (addTimeline_calls rt cs s0)) = length cs)
   \<and> ((\<forall>t\<in>set (timelines s). \<not> nullish t) \<and> (\<forall>e\<in>set (events s). \<not> nullish e) \<longrightarrow>
      timelines (snd (removeTimeline rt doc i s))
        = filter (\<lambda>t. \<not> strict_eq (field t ''id'') i) (timelines s)
      \<and> events (snd (removeTimeline rt doc i s))
        = filter (\<lambda>e. \<not> strict_eq (field e ''timelineId'') i) (events s))"
proof -
  have add: "timelines (addTimeline_calls rt cs s0) = map timeline_entry cs"
    if "constructor gid a b c u = Inr s0"
    using that
    by (auto simp: addTimeline_calls_timelines constructor_def init_def Let_def
             split: if_splits)
  have rem: "timelines (snd (removeTimeline rt doc i s))
               = filter (\<lambda>t. \<not> strict_eq (field t ''id'') i) (timelines s)
             \<and> events (snd (removeTimeline rt doc i s))
               = filter (\<lambda>e. \<not> strict_eq (field e ''timelineId'') i) (events s)"
    if "(\<forall>t\<in>set (timelines s). \<not> nullish t) \<and> (\<forall>e\<in>set (events s). \<not> nullish e)"
    using that
    by (simp add: removeTimeline_def filter_prop_ne_filter resize_data Let_def)
  from add rem show ?thesis by simp
qed


theorem addTimeline_order_removeTimeline_cascade_witness:
  "(\<exists>s0. constructor (JStr ''t'') 0 63072000000 \<lparr>clientWidth = 800, clientHeight = 400\<rparr>
            no_options = Inr s0
       \<and> timelines (addTimeline_calls example_runtime
            [(example_doc, example_env 0, ''Dev'', None, JStr ''dev'', True),
             (example_doc, example_env 1, ''Ops'', Some ''#f093fb'', Undefined, True)] s0)
          = [JObj [(''id'', JStr ''dev''), (''name'', JStr ''Dev''), (''color'', JStr ''#667eea'')],
             JObj [(''id'', JStr ''gx''), (''name'', JStr ''Ops''), (''color'', JStr ''#f093fb'')]])
   \<and> timelines (snd (removeTimeline example_runtime example_doc (JStr ''dev'') example_instance2))
       = [example_timelines ! 1]
   \<and> events (snd (removeTimeline example_runtime example_doc (JStr ''dev'') example_instance2))
       = [example_events ! 1]"
proof -
  let ?c = "\<lparr>clientWidth = 800, clientHeight = 400\<rparr>"
  let ?cs = "[(example_doc, example_env 0, ''Dev'', None, JStr ''dev'', True),
              (example_doc, example_env 1, ''Ops'', Some ''#f093fb'', Undefined, True)]"
  obtain s0 where s0: "constructor (JStr ''t'') 0 63072000000 ?c no_options = Inr s0"
    by (simp add: constructor_def resolve_size_def merge_options_def defaultOptions_def
        no_options_def pick_def Let_def)
  have h: "(\<forall>t\<in>set (timelines example_instance2). \<not> nullish t)
           \<and> (\<forall>e\<in>set (events example_instance2). \<not> nullish e)"
    by (simp add: example_instance2_def example_timelines_def example_events_def)
  note inst = addTimeline_order_removeTimeline_cascade
    [where gid = "JStr ''t''" and a = 0 and b = 63072000000 and c = ?c and u = no_options
       and ?s0.0 = s0 and rt = example_runtime and cs = ?cs and s = example_instance2
       and doc = example_doc and i = "JStr ''dev''"]
  from inst s0 have
    "timelines (addTimeline_calls example_runtime ?cs s0) = map timeline_entry ?cs"
    by blast
  moreover from inst h have
    "timelines (snd (removeTimeline example_runtime example_doc (JStr ''dev'') example_instance2))
       = filter (\<lambda>t. \<not> strict_eq (field t ''id'') (JStr ''dev'')) (timelines example_instance2)"
    "events (snd (removeTimeline example_runtime example_doc (JStr ''dev'') example_instance2))
       = filter (\<lambda>e. \<not> strict_eq (field e ''timelineId'') (JStr ''dev''))
           (events example_instance2)"
    by blast+
  ultimately show ?thesis
    using s0
    by (simp add: example_instance2_def example_timelines_def example_events_def
        example_env_def field_def)
qed


section \<open>Properties of the timeline identifier of addEvent\<close>

lemma find_by_id_found_id:
  "find_by_id ts i = Inr (Some t) \<Longrightarrow> \<exists>t'\<in>set ts. strict_eq (field t' ''id'') i"
proof (induction ts)
  case Nil
  then show ?case by simp
next
  case (Cons x xs)
  then show ?case
    by (cases x) (auto simp: field_def split: sum.splits if_splits)
qed

lemma strict_eq_ID:
  "strict_eq a b \<Longrightarrow> is_ID a \<Longrightarrow> a = b \<and> a \<noteq> JNum NaN"
  by (cases a) auto

lemma resolves_ID:
  assumes "\<forall>t\<in>set ts. is_ID (field t ''id'')" and "resolves ts i"
  shows "is_ID i \<and> i \<noteq> JNum NaN"
proof -
  from assms(2) obtain t where "find_by_id ts i = Inr (Some t)"
    by (auto simp: resolves_def split: sum.splits option.splits)
  then obtain t' where "t' \<in> set ts" "strict_eq (field t' ''id'') i"
    using find_by_id_found_id by blast
  with assms(1) show ?thesis using strict_eq_ID by blast
qed

lemma falsy_ID:
  "is_ID i \<Longrightarrow> i \<noteq> JNum NaN \<Longrightarrow> (\<not> truthy i) = (i = JNum (Fin 0) \<or> i = JStr [])"
  by (cases i rule: truthy.cases) auto

lemma map_sum_id_Inl: "(map_sum id f x = Inl e) = (x = Inl e)"
  by (cases x) auto

lemma get_prop_TypeError: "get_prop v k = Inl e \<Longrightarrow> e = TypeError"
  by (cases v) auto

lemma call_toString_TypeError: "call_toString rt v = Inl e \<Longrightarrow> e = TypeError"
  by (cases v) (auto split: if_splits option.splits)

lemma check_keys_TypeError: "check_keys rt ds = Inl e \<Longrightarrow> e = TypeError"
  by (induction ds)
     (auto split: sum.splits dest: get_prop_TypeError call_toString_TypeError)

lemma find_index_by_id_TypeError: "find_index_by_id ts i = Inl e \<Longrightarrow> e = TypeError"
proof (induction ts)
  case Nil
  then show ?case by simp
next
  case (Cons t ts)
  then show ?case
    by (cases "find_index_by_id ts i")
       (auto split: sum.splits if_splits dest: get_prop_TypeError)
qed

lemma timeline_of_TypeError: "timeline_of s d = Inl e \<Longrightarrow> e = TypeError"
  by (auto simp: timeline_of_def split: if_splits sum.splits
           dest: get_prop_TypeError find_index_by_id_TypeError)

lemma updateEventPositions_TypeError: "updateEventPositions s ds = Inl e \<Longrightarrow> e = TypeError"
  by (induction ds) (auto split: sum.splits dest: timeline_of_TypeError)

lemma ToNumber_TypeError: "ToNumber rt v = Inl e \<Longrightarrow> e = TypeError"
  by (cases v) (auto split: option.splits)

lemma ToString_check_TypeError: "ToString_check rt v = Inl e \<Longrightarrow> e = TypeError"
  by (cases v) (auto split: option.splits)

lemma stage_index_TypeError: "stage_index rt ev = Inl e \<Longrightarrow> e = TypeError"
  by (auto simp: stage_index_def split: sum.splits
           dest: get_prop_TypeError ToNumber_TypeError)

lemma stage_keys_TypeError: "stage_keys rt es = Inl e \<Longrightarrow> e = TypeError"
  by (induction es arbitrary: e) (auto split: sum.splits dest: stage_index_TypeError)

lemma sortByStageIndex_TypeError: "sortByStageIndex rt es = Inl e \<Longrightarrow> e = TypeError"
  by (auto simp: sortByStageIndex_def split: if_splits sum.splits dest: stage_keys_TypeError)

lemma stagePoint_TypeError: "stagePoint sc s ev = Inl e \<Longrightarrow> e = TypeError"
  by (auto simp: stagePoint_def split: sum.splits
           dest: get_prop_TypeError find_index_by_id_TypeError)

lemma stagePoints_TypeError: "stagePoints sc s es = Inl e \<Longrightarrow> e = TypeError"
  by (induction es arbitrary: e) (auto split: sum.splits dest: stagePoint_TypeError)

lemma renderStageGroup_TypeError: "renderStageGroup rt sc s g = Inl e \<Longrightarrow> e = TypeError"
  by (auto simp: renderStageGroup_def Let_def split: sum.splits if_splits
           dest: sortByStageIndex_TypeError ToString_check_TypeError stagePoints_TypeError)

lemma renderStageGroups_TypeError: "renderStageGroups rt sc s gs = Inl e \<Longrightarrow> e = TypeError"
  by (induction gs arbitrary: e) (auto split: sum.splits dest: renderStageGroup_TypeError)

lemma collectStageGroups_TypeError: "collectStageGroups es gs = Inl e \<Longrightarrow> e = TypeError"
  by (induction es arbitrary: gs)
     (auto split: sum.splits if_splits dest: get_prop_TypeError)

lemma renderStageLines_TypeError: "renderStageLines rt sc s = Inl e \<Longrightarrow> e = TypeError"
  by (auto simp: renderStageLines_def map_sum_id_Inl split: if_splits sum.splits
           dest: collectStageGroups_TypeError renderStageGroups_TypeError)

lemma render_TypeError: "render rt doc f s = Inl e \<Longrightarrow> e = TypeError"
  by (auto simp: render_def renderTimelines_def renderEvents_def map_sum_id_Inl
           split: if_splits sum.splits
           dest: check_keys_TypeError renderStageLines_TypeError updateEventPositions_TypeError)

lemma render_not_Error: "render rt doc f s \<noteq> Inl (Error msg)"
  using render_TypeError by fastforce






section \<open>Properties of the stage lines\<close>

lemma group_push_keys: "fst ` set (group_push k e gs) = insert k (fst ` set gs)"
  by (induction k e gs rule: group_push.induct) (auto split: if_splits)

lemma group_push_distinct:
  "distinct (map fst gs) \<Longrightarrow> distinct (map fst (group_push k e gs))"
proof (induction k e gs rule: group_push.induct)
  case (1 key event)
  then show ?case by simp
next
  case (2 key event k es gs)
  then show ?case
    using group_push_keys[of key event gs] by (auto simp: image_iff)
qed

lemma group_push_lookup:
  "lookup_group (group_push k e gs) k' = lookup_group gs k' @ (if k' = k then [e] else [])"
  by (induction k e gs rule: group_push.induct) (auto simp: lookup_group_def)

lemma group_push_nonempty:
  "\<forall>g\<in>set gs. snd g \<noteq> [] \<Longrightarrow> \<forall>g\<in>set (group_push k e gs). snd g \<noteq> []"
  by (induction k e gs rule: group_push.induct) (auto split: if_splits)

lemma truthy_not_nullish: "truthy v \<Longrightarrow> \<not> nullish v"
  by (cases v) auto

lemma collectStageGroups_char:
  assumes "\<forall>e\<in>set es. \<not> nullish e" and "distinct (map fst gs)" and "\<forall>g\<in>set gs. snd g \<noteq> []"
  shows "\<exists>gs'. collectStageGroups es gs = Inr gs' \<and> distinct (map fst gs')
           \<and> (\<forall>g\<in>set gs'. snd g \<noteq> [])
           \<and> (\<forall>k. lookup_group gs' k = lookup_group gs k @ stage_members k es)"
  using assms
proof (induction es arbitrary: gs)
  case Nil
  then show ?case by (simp add: stage_members_def)
next
  case (Cons e es)
  have ne: "\<not> nullish e" using Cons.prems(1) by simp
  let ?st = "field e ''stage''"
  show ?case
  proof (cases "truthy ?st")
    case False
    with Cons ne show ?thesis
      by (simp add: get_prop_field stage_members_def)
  next
    case True
    let ?gs1 = "group_push (field ?st ''id'') e gs"
    have "\<exists>gs'. collectStageGroups es ?gs1 = Inr gs' \<and> distinct (map fst gs')
           \<and> (\<forall>g\<in>set gs'. snd g \<noteq> [])
           \<and> (\<forall>k. lookup_group gs' k = lookup_group ?gs1 k @ stage_members k es)"
      using Cons.prems
      by (intro Cons.IH) (simp_all add: group_push_distinct group_push_nonempty)
    then show ?thesis
      using True ne truthy_not_nullish[OF True]
      by (auto simp: get_prop_field group_push_lookup stage_members_def)
  qed
qed


lemma insert_stable_length: "length (insert_stable x ys) = Suc (length ys)"
  by (induction ys) auto

lemma insert_stable_set: "set (insert_stable x ys) = insert x (set ys)"
  by (induction ys) auto

lemma sort_stable_acc:
  "length (foldl (\<lambda>acc x. insert_stable x acc) acc xs) = length acc + length xs
   \<and> set (foldl (\<lambda>acc x. insert_stable x acc) acc xs) = set acc \<union> set xs"
  by (induction xs arbitrary: acc) (auto simp: insert_stable_length insert_stable_set)

lemma sort_stable_length: "length (sort_stable xs) = length xs"
  by (simp add: sort_stable_def sort_stable_acc)

lemma sort_stable_set: "set (sort_stable xs) = set xs"
  by (simp add: sort_stable_def sort_stable_acc)

lemma staged_index:
  assumes "staged e"
  shows "\<exists>n. stage_index rt e = Inr n"
proof -
  from assms obtain ps n where st: "field e ''stage'' = JObj ps"
      and ix: "field (JObj ps) ''index'' = JNum n" and ne: "\<not> nullish e"
    by (auto simp: staged_def has_typed_stage_def split: jsval.splits)
  have "get_prop (JObj ps) ''index'' = Inr (JNum n)"
    using ix get_prop_field[of "JObj ps" "''index''"] by simp
  then show ?thesis
    using ne st by (simp add: stage_index_def get_prop_field or_else_def)
qed

lemma stage_keys_ok:
  "\<forall>e\<in>set es. staged e \<Longrightarrow> \<exists>ks. stage_keys rt es = Inr ks \<and> map snd ks = es"
proof (induction es)
  case Nil
  then show ?case by simp
next
  case (Cons e es)
  then obtain ks where "stage_keys rt es = Inr ks" "map snd ks = es" by auto
  moreover obtain n where "stage_index rt e = Inr n"
    using staged_index Cons.prems by fastforce
  ultimately show ?case by simp
qed

lemma sortByStageIndex_ok:
  assumes "\<forall>e\<in>set es. staged e"
  shows "\<exists>ordered. sortByStageIndex rt es = Inr ordered
           \<and> length ordered = length es \<and> set ordered = set es"
proof -
  obtain ks where ks: "stage_keys rt es = Inr ks" "map snd ks = es"
    using stage_keys_ok[OF assms] by blast
  have "length (map snd (sort_stable ks)) = length es"
    using ks(2) by (simp add: sort_stable_length) (metis length_map)
  moreover have "set (map snd (sort_stable ks)) = set es"
    using ks(2) by (simp add: sort_stable_set) (metis set_map)
  ultimately show ?thesis
    using ks(1) by (simp add: sortByStageIndex_def)
qed

lemma find_index_by_id_total:
  "\<forall>t\<in>set ts. \<not> nullish t \<Longrightarrow> \<exists>r. find_index_by_id ts i = Inr r"
proof (induction ts)
  case Nil
  then show ?case by simp
next
  case (Cons t ts)
  then obtain r where "find_index_by_id ts i = Inr r" by auto
  then show ?case using Cons.prems by (simp add: get_prop_field)
qed

lemma stagePoint_ok:
  assumes "\<forall>t\<in>set (timelines s). \<not> nullish t" and "\<not> nullish e"
  shows "\<exists>p. stagePoint sc s e = Inr p"
  using find_index_by_id_total[OF assms(1), of "field e ''timelineId''"] assms(2)
  by (auto simp: stagePoint_def get_prop_field)

lemma stagePoints_ok:
  assumes "\<forall>t\<in>set (timelines s). \<not> nullish t"
  shows "\<forall>e\<in>set es. \<not> nullish e \<Longrightarrow> \<exists>ps. stagePoints sc s es = Inr ps \<and> length ps = length es"
proof (induction es)
  case Nil
  then show ?case by simp
next
  case (Cons e es)
  then obtain ps where "stagePoints sc s es = Inr ps" "length ps = length es" by auto
  moreover obtain p where "stagePoint sc s e = Inr p"
    using stagePoint_ok[OF assms] Cons.prems by fastforce
  ultimately show ?case by simp
qed

lemma segments_length: "length (segments ps t) = length ps - 1"
  by (induction ps t rule: segments.induct) auto

lemma pathPieces_length: "2 \<le> length ps \<Longrightarrow> length (pathPieces ps t) = length ps"
proof (cases ps)
  case Nil
  assume "2 \<le> length ps"
  with Nil show ?thesis by simp
next
  case (Cons a qs)
  assume l: "2 \<le> length ps"
  with Cons obtain b rs where "qs = b # rs" by (cases qs) auto
  with Cons show ?thesis
    using segments_length[of "b # rs" t] by simp
qed

lemma ToString_check_ID: "is_ID k \<Longrightarrow> ToString_check rt k = Inr ()"
  by (cases k) auto

lemma renderStageGroup_small:
  assumes "\<forall>e\<in>set (snd g). staged e" and "length (snd g) < 2"
  shows "renderStageGroup rt sc s g = Inr None"
proof -
  obtain ordered where o: "sortByStageIndex rt (snd g) = Inr ordered"
      "length ordered = length (snd g)"
    using sortByStageIndex_ok[OF assms(1)] by blast
  show ?thesis
    using o assms(2) by (simp add: renderStageGroup_def)
qed

lemma renderStageGroup_big:
  assumes "\<forall>t\<in>set (timelines s). \<not> nullish t" and "\<forall>e\<in>set (snd g). staged e"
    and "is_ID (fst g)" and "2 \<le> length (snd g)"
  shows "\<exists>l. renderStageGroup rt sc s g = Inr (Some l) \<and> draws l g"
proof -
  obtain ordered where o: "sortByStageIndex rt (snd g) = Inr ordered"
      "length ordered = length (snd g)" "set ordered = set (snd g)"
    using sortByStageIndex_ok[OF assms(2)] by blast
  have "\<forall>e\<in>set ordered. \<not> nullish e"
    using assms(2) o(3) by (simp add: staged_def)
  then obtain ps where ps: "stagePoints sc s ordered = Inr ps" "length ps = length ordered"
    using stagePoints_ok[OF assms(1)] by blast
  have l2: "\<not> length ordered < 2" "2 \<le> length ps"
    using assms(4) o(2) ps(2) by simp_all
  show ?thesis
    using o ps l2 ToString_check_ID[OF assms(3)]
    by (simp add: renderStageGroup_def Let_def pathPieces_length draws_def)
qed

lemma renderStageGroups_ok:
  assumes "\<forall>t\<in>set (timelines s). \<not> nullish t"
  shows "\<forall>g\<in>set gs. (\<forall>e\<in>set (snd g). staged e) \<and> is_ID (fst g) \<Longrightarrow>
         \<exists>ls. renderStageGroups rt sc s gs = Inr ls
           \<and> map sg_id ls = map fst (filter (\<lambda>g. 2 \<le> length (snd g)) gs)
           \<and> (\<forall>l\<in>set ls. \<exists>g\<in>set gs. draws l g)"
proof (induction gs)
  case Nil
  then show ?case by simp
next
  case (Cons g gs)
  have "\<forall>g\<in>set gs. (\<forall>e\<in>set (snd g). staged e) \<and> is_ID (fst g)"
    using Cons.prems by simp
  from Cons.IH[OF this] obtain ls where ls: "renderStageGroups rt sc s gs = Inr ls"
      and ids: "map sg_id ls = map fst (filter (\<lambda>g. 2 \<le> length (snd g)) gs)"
      and props: "\<forall>l\<in>set ls. \<exists>g\<in>set gs. draws l g"
    by blast
  have g1: "\<forall>e\<in>set (snd g). staged e" and g2: "is_ID (fst g)"
    using Cons.prems by simp_all
  show ?case
  proof (cases "2 \<le> length (snd g)")
    case True
    from renderStageGroup_big[OF assms g1 g2 True, of rt sc]
    obtain l where l: "renderStageGroup rt sc s g = Inr (Some l)" "draws l g"
      by blast
    have "renderStageGroups rt sc s (g # gs) = Inr (l # ls)"
      using l(1) ls by simp
    moreover have "map sg_id (l # ls) = map fst (filter (\<lambda>g. 2 \<le> length (snd g)) (g # gs))"
      using True l(2) ids by (simp add: draws_def)
    moreover have "\<forall>l'\<in>set (l # ls). \<exists>g'\<in>set (g # gs). draws l' g'"
      using props l(2) by auto
    ultimately show ?thesis by blast
  next
    case False
    then have "renderStageGroup rt sc s g = Inr None"
      using renderStageGroup_small[OF g1] by simp
    then have "renderStageGroups rt sc s (g # gs) = Inr ls"
      using ls by simp
    moreover have "map sg_id ls = map fst (filter (\<lambda>g. 2 \<le> length (snd g)) (g # gs))"
      using False ids by simp
    moreover have "\<forall>l'\<in>set ls. \<exists>g'\<in>set (g # gs). draws l' g'"
      using props by auto
    ultimately show ?thesis by blast
  qed
qed

lemma lookup_group_member:
  "distinct (map fst gs) \<Longrightarrow> g \<in> set gs \<Longrightarrow> lookup_group gs (fst g) = snd g"
  by (cases g) (simp add: lookup_group_def)

lemma lookup_group_absent:
  assumes "k \<notin> fst ` set gs"
  shows "lookup_group gs k = []"
proof -
  have "map_of gs k = None" using assms by (simp add: map_of_eq_None_iff)
  then show ?thesis by (simp add: lookup_group_def)
qed

lemma stage_members_staged:
  assumes "\<forall>e\<in>set es. \<not> nullish e \<and> has_typed_stage e"
  shows "\<forall>e\<in>set (stage_members k es). staged e"
  using assms by (auto simp: stage_members_def staged_def)

lemma stage_members_ID:
  assumes "\<forall>e\<in>set es. \<not> nullish e \<and> has_typed_stage e" and "stage_members k es \<noteq> []"
  shows "is_ID k"
proof -
  from assms(2) obtain e where e: "e \<in> set es" "truthy (field e ''stage'')"
      "field (field e ''stage'') ''id'' = k"
    by (auto simp: stage_members_def filter_empty_conv)
  with assms(1) have "has_typed_stage e" by simp
  with e(2,3) show ?thesis
    by (auto simp: has_typed_stage_def split: jsval.splits)
qed

lemma renderStageLines_visible:
  assumes "stageLinesVisible s"
    and "\<forall>t\<in>set (timelines s). \<not> nullish t"
    and "\<forall>e\<in>set (events s). \<not> nullish e \<and> has_typed_stage e"
  shows "\<exists>ls. renderStageLines rt sc s = Inr (Some ls)
           \<and> distinct (map sg_id ls)
           \<and> (\<forall>k. (k \<in> sg_id ` set ls) = (2 \<le> length (stage_members k (events s))))
           \<and> (\<forall>l\<in>set ls.
                 length (sg_pieces l) = length (stage_members (sg_id l) (events s))
                 \<and> set (sg_members l) = set (stage_members (sg_id l) (events s)))"
proof -
  have ne: "\<forall>e\<in>set (events s). \<not> nullish e" using assms(3) by simp
  obtain gs where gs: "collectStageGroups (events s) [] = Inr gs" "distinct (map fst gs)"
      "\<forall>g\<in>set gs. snd g \<noteq> []"
      "\<forall>k. lookup_group gs k = lookup_group [] k @ stage_members k (events s)"
    using collectStageGroups_char[OF ne, of "[]"] by auto
  have lk: "lookup_group gs k = stage_members k (events s)" for k
    using gs(4) by (simp add: lookup_group_def)
  have mem: "snd g = stage_members (fst g) (events s)" if "g \<in> set gs" for g
    using lookup_group_member[OF gs(2) that] lk by simp
  have good: "\<forall>g\<in>set gs. (\<forall>e\<in>set (snd g). staged e) \<and> is_ID (fst g)"
  proof
    fix g assume g: "g \<in> set gs"
    have "stage_members (fst g) (events s) \<noteq> []" using mem[OF g] gs(3) g by auto
    then show "(\<forall>e\<in>set (snd g). staged e) \<and> is_ID (fst g)"
      using mem[OF g] stage_members_staged[OF assms(3)] stage_members_ID[OF assms(3)]
      by auto
  qed
  obtain ls where ls: "renderStageGroups rt sc s gs = Inr ls"
      "map sg_id ls = map fst (filter (\<lambda>g. 2 \<le> length (snd g)) gs)"
      "\<forall>l\<in>set ls. \<exists>g\<in>set gs. draws l g"
    using renderStageGroups_ok[OF assms(2) good] by blast
  have r: "renderStageLines rt sc s = Inr (Some ls)"
    using assms(1) gs(1) ls(1) by (simp add: renderStageLines_def)
  have d: "distinct (map sg_id ls)"
    unfolding ls(2) using gs(2) by (simp add: distinct_map_filter)
  have k: "(k \<in> sg_id ` set ls) = (2 \<le> length (stage_members k (events s)))" for k
  proof
    assume "k \<in> sg_id ` set ls"
    then have "k \<in> set (map sg_id ls)" by simp
    then obtain g where "g \<in> set gs" "2 \<le> length (snd g)" "k = fst g"
      unfolding ls(2) by auto
    then show "2 \<le> length (stage_members k (events s))" using mem by simp
  next
    assume a: "2 \<le> length (stage_members k (events s))"
    then have "lookup_group gs k \<noteq> []" using lk by auto
    then have "k \<in> fst ` set gs" using lookup_group_absent by blast
    then obtain g where g: "g \<in> set gs" "fst g = k" by auto
    with a mem have "2 \<le> length (snd g)" by simp
    with g have "k \<in> set (map fst (filter (\<lambda>g. 2 \<le> length (snd g)) gs))" by force
    then show "k \<in> sg_id ` set ls" using ls(2) by (metis set_map)
  qed
  have p: "\<forall>l\<in>set ls. length (sg_pieces l) = length (stage_members (sg_id l) (events s))
             \<and> set (sg_members l) = set (stage_members (sg_id l) (events s))"
  proof
    fix l assume "l \<in> set ls"
    with ls(3) obtain g where g: "g \<in> set gs" "draws l g" by blast
    then show "length (sg_pieces l) = length (stage_members (sg_id l) (events s))
             \<and> set (sg_members l) = set (stage_members (sg_id l) (events s))"
      using mem[OF g(1)] by (simp add: draws_def)
  qed
  show ?thesis
  proof (intro exI[of _ ls] conjI allI)
    show "renderStageLines rt sc s = Inr (Some ls)" by (rule r)
    show "distinct (map sg_id ls)" by (rule d)
    show "(k \<in> sg_id ` set ls) = (2 \<le> length (stage_members k (events s)))" for k
      by (rule k)
    show "\<forall>l\<in>set ls. length (sg_pieces l) = length (stage_members (sg_id l) (events s))
             \<and> set (sg_members l) = set (stage_members (sg_id l) (events s))"
      by (rule p)
  qed
qed

text \<open>
  C4. While the stage lines are hidden, \<open>renderStageLines\<close> returns before it draws:
  the two events of the stage \<open>s1\<close> get no path.
\<close>

theorem renderStageLines_hidden:
  "renderStageLines example_runtime (xScale example_doc)
      (example_instance2 \<lparr>stageLinesVisible := False\<rparr>) = Inr None
   \<and> length (stage_members (JStr ''s1'') (events (example_instance2 \<lparr>stageLinesVisible := False\<rparr>))) = 2"
  by (simp add: renderStageLines_def example_instance2_def example_events_def
      stage_members_def field_def)

text \<open>
  C4, as amended. While the stage lines are visible, in an instance whose timelines are
  objects and whose events are typed objects, \<open>renderStageLines\<close> draws one path for
  each stage group of at least two events and none for any other; the path has as many
  anchor points (the \<open>M\<close> point and one segment per adjacent pair) as the group has
  events, and connects the events of the group.
\<close>

theorem renderStageLines_path_per_group:
  assumes "stageLinesVisible s"
    and "\<forall>t\<in>set (timelines s). \<not> nullish t"
    and "\<forall>e\<in>set (events s). \<not> nullish e \<and> has_typed_stage e"
  shows "\<exists>ls. renderStageLines rt sc s = Inr (Some ls)
           \<and> distinct (map sg_id ls)
           \<and> (\<forall>k. (k \<in> sg_id ` set ls) = (2 \<le> length (stage_members k (events s))))
           \<and> (\<forall>l\<in>set ls.
                 length (sg_pieces l) = length (stage_members (sg_id l) (events s))
                 \<and> set (sg_members l) = set (stage_members (sg_id l) (events s)))"
  using assms by (rule renderStageLines_visible)

theorem renderStageLines_path_per_group_witness:
  "\<exists>ls. renderStageLines example_runtime (xScale example_doc) example_instance2 = Inr (Some ls)
      \<and> map sg_id ls = [JStr ''s1'']
      \<and> map sg_pieces ls = [[[M 0 130], [L 240 50]]]
      \<and> (\<forall>k. (k \<in> sg_id ` set ls) = (2 \<le> length (stage_members k (events example_instance2))))
      \<and> (\<forall>l\<in>set ls. length (sg_pieces l)
                          = length (stage_members (sg_id l) (events example_instance2)))"
proof -
  have v: "stageLinesVisible example_instance2"
    by (simp add: example_instance2_def example_instance_def init_def)
  have t: "\<forall>t\<in>set (timelines example_instance2). \<not> nullish t"
    by (simp add: example_instance2_def example_timelines_def)
  have e: "\<forall>e\<in>set (events example_instance2). \<not> nullish e \<and> has_typed_stage e"
    by (simp add: example_instance2_def example_events_def has_typed_stage_def field_def)
  obtain ls where ls:
      "renderStageLines example_runtime (xScale example_doc) example_instance2 = Inr (Some ls)"
      "\<forall>k. (k \<in> sg_id ` set ls) = (2 \<le> length (stage_members k (events example_instance2)))"
      "\<forall>l\<in>set ls. length (sg_pieces l)
                        = length (stage_members (sg_id l) (events example_instance2))
                      \<and> set (sg_members l)
                        = set (stage_members (sg_id l) (events example_instance2))"
    using renderStageLines_path_per_group [OF v t e, of example_runtime "xScale example_doc"]
    by blast
  have run: "renderStageLines example_runtime (xScale example_doc) example_instance2
      = Inr (Some [\<lparr> sg_id = JStr ''s1'',
                      sg_members = [example_events ! 0, example_events ! 1],
                      sg_pieces = [[M 0 130], [L 240 50]],
                      sg_arrows = [(\<lparr>p_x = 0, p_y = 130, p_event = example_events ! 0, p_width = 0\<rparr>,
                                    \<lparr>p_x = 240, p_y = 50, p_event = example_events ! 1,
                                      p_width = 240\<rparr>)] \<rparr>])"
    by (simp add: renderStageLines_def renderStageGroup_def sortByStageIndex_def
        sort_stable_def before_def stage_index_def stagePoint_def or_else_def
        calculateTimelineOffsetY_def generatePathSegment_def Let_def pick_def
        example_instance2_def example_timelines_def example_events_def example_defs)
  from ls run show ?thesis by auto
qed


section \<open>Properties of the serializer\<close>

lemma field_of [simp]:
  "field (JObj ps) k = (case map_of ps k of None \<Rightarrow> Undefined | Some v \<Rightarrow> v)"
  "field Undefined k = Undefined"
  "field Null k = Undefined"
  "field (JBool b) k = Undefined"
  "field (JNum n) k = Undefined"
  "field (JStr s) k = Undefined"
  "field (JDate d) k = Undefined"
  "field (JArr xs) k = Undefined"
  by (simp_all add: field_def)

lemma reviver_untagged:
  "field v ''$type'' \<noteq> JStr ''Date'' \<Longrightarrow> reviver rt f v = Inr v"
  by (cases "field v ''$type''") (auto simp: reviver_def)

lemma json_norm_Undefined: "(json_norm v = Undefined) = (v = Undefined)"
  by (cases v) (auto elim: finite_or_null.elims)

lemma json_norm_tag: "(json_norm v = JStr ''Date'') = (v = JStr ''Date'')"
  by (cases v) (auto elim: finite_or_null.elims)

lemma revive_record:
  assumes "date_ok rt f t" and "dateReplacer rt f (Some t) = Inr r"
  shows "revive rt f (record_tree r) = Inr (JDate (Some t))"
  using assms
  by (cases f)
     (auto simp: dateReplacer_def date_ok_def reviver_def)


lemma json_norm_props_keys: "fst ` set (json_norm_props ps) \<subseteq> fst ` set ps"
proof (induction ps)
  case Nil
  then show ?case by simp
next
  case (Cons p ps)
  obtain k v where p: "p = (k, v)" by (cases p)
  show ?case
    using Cons.IH unfolding p by (cases "v = Undefined") auto
qed

lemma map_of_json_norm_props:
  "distinct (map fst ps) \<Longrightarrow>
     map_of (json_norm_props ps) k
       = (case map_of ps k of
            None \<Rightarrow> None
          | Some v \<Rightarrow> if v = Undefined then None else Some (json_norm v))"
proof (induction ps)
  case Nil
  then show ?case by simp
next
  case (Cons p ps)
  obtain k' v where p: "p = (k', v)" by (cases p)
  have notin: "k' \<notin> fst ` set (json_norm_props ps)"
    using Cons.prems json_norm_props_keys[of ps] by (auto simp: p)
  then have none: "map_of (json_norm_props ps) k' = None"
    by (simp add: map_of_eq_None_iff)
  show ?case
    using Cons none by (auto simp: p split: option.splits)
qed

lemma json_norm_props_defined:
  "filter (\<lambda>q. snd q \<noteq> Undefined) (json_norm_props ps) = json_norm_props ps"
  by (induction ps) (auto simp: json_norm_Undefined)

lemma untagged_norm:
  assumes "distinct (map fst ps)" and "map_of ps ''$type'' \<noteq> Some (JStr ''Date'')"
  shows "field (JObj (json_norm_props ps)) ''$type'' \<noteq> JStr ''Date''"
  using assms
  by (auto simp: map_of_json_norm_props json_norm_tag split: option.splits)

lemma serialize_revive:
  "exportable rt f v \<Longrightarrow>
     \<exists>t v'. serialize_held rt f v = Inr (t, v') \<and> (t = None) = (v = Undefined)
       \<and> (\<forall>j. t = Some j \<longrightarrow> revive rt f j = Inr (json_norm v))"
  "exportable_list rt f xs \<Longrightarrow>
     \<exists>rs. serialize_list rt f xs = Inr rs
       \<and> revive_list rt f (map (\<lambda>r. case fst r of None \<Rightarrow> Null | Some j \<Rightarrow> j) rs)
           = Inr (json_norm_list xs)"
  "exportable_props rt f ps \<Longrightarrow>
     \<exists>rs. serialize_props rt f ps = Inr rs
       \<and> revive_props rt f (present (map (\<lambda>(k, r). (k, fst r)) rs))
           = Inr (json_norm_props ps)"
proof (induction rt f v and rt f xs and rt f ps
       rule: serialize_held_serialize_list_serialize_props.induct)
  case (1 rt f)
  then show ?case by simp
next
  case (2 rt f)
  then show ?case by (simp add: reviver_untagged)
next
  case (3 rt f b)
  then show ?case by (simp add: reviver_untagged)
next
  case (4 rt f n)
  then show ?case by (cases n) (simp_all add: reviver_untagged)
next
  case (5 rt f s)
  then show ?case by (simp add: reviver_untagged)
next
  case (6 rt f d)
  then obtain t where t: "d = Some t" "date_ok rt f t" by (cases d) auto
  then obtain r where r: "dateReplacer rt f (Some t) = Inr r"
    by (cases f) (auto simp: dateReplacer_def)
  show ?case
    using t r revive_record[OF t(2) r] by (simp add: date_slot_def)
next
  case (7 rt f xs)
  then obtain rs where rs: "serialize_list rt f xs = Inr rs"
      "revive_list rt f (map (\<lambda>r. case fst r of None \<Rightarrow> Null | Some j \<Rightarrow> j) rs)
         = Inr (json_norm_list xs)"
    by auto
  then show ?case by (simp add: reviver_untagged)
next
  case (8 rt f ps)
  then obtain rs where rs: "serialize_props rt f ps = Inr rs"
      "revive_props rt f (present (map (\<lambda>(k, r). (k, fst r)) rs)) = Inr (json_norm_props ps)"
    by auto
  have "field (JObj (json_norm_props ps)) ''$type'' \<noteq> JStr ''Date''"
    using "8.prems" by (intro untagged_norm) simp_all
  then show ?case
    using rs by (simp add: json_norm_props_defined reviver_untagged del: field_of)
next
  case (9 rt f)
  then show ?case by simp
next
  case (10 rt f c cs)
  then obtain t v' where c: "serialize_held rt f c = Inr (t, v')" "(t = None) = (c = Undefined)"
      "\<forall>j. t = Some j \<longrightarrow> revive rt f j = Inr (json_norm c)"
    by auto
  with 10 obtain rs where rs: "serialize_list rt f cs = Inr rs"
      "revive_list rt f (map (\<lambda>r. case fst r of None \<Rightarrow> Null | Some j \<Rightarrow> j) rs)
         = Inr (json_norm_list cs)"
    by auto
  show ?case
    using c rs by (cases t) (auto simp: reviver_untagged)
next
  case (11 rt f)
  then show ?case by simp
next
  case (12 rt f k c ps)
  then obtain t v' where c: "serialize_held rt f c = Inr (t, v')" "(t = None) = (c = Undefined)"
      "\<forall>j. t = Some j \<longrightarrow> revive rt f j = Inr (json_norm c)"
    by auto
  with 12 obtain rs where rs: "serialize_props rt f ps = Inr rs"
      "revive_props rt f (present (map (\<lambda>(k, r). (k, fst r)) rs)) = Inr (json_norm_props ps)"
    by auto
  show ?case
    using c rs by (cases t) auto
qed


lemma serialize_list_length: "serialize_list rt f xs = Inr rs \<Longrightarrow> length rs = length xs"
  by (induction xs arbitrary: rs) (auto split: sum.splits)

lemma serialize_props_keys: "serialize_props rt f ps = Inr rs \<Longrightarrow> map fst rs = map fst ps"
proof (induction ps arbitrary: rs)
  case Nil
  then show ?case by simp
next
  case (Cons p ps)
  obtain k v where p: "p = (k, v)" by (cases p)
  from Cons show ?case unfolding p by (auto split: sum.splits)
qed

lemma dateReplacer_record:
  "dateReplacer rt f d = Inr r \<Longrightarrow> \<not> is_date r \<and> \<not> holds_date r \<and> field r ''$type'' = JStr ''Date''"
  by (cases f) (auto simp: dateReplacer_def split: option.splits)

lemma holds_date_list_map:
  "holds_date_list xs = (\<exists>x\<in>set xs. is_date x \<or> holds_date x)"
  by (induction xs) auto

lemma holds_date_props_map:
  "holds_date_props ps = (\<exists>p\<in>set ps. is_date (snd p) \<or> holds_date (snd p))"
  by (induction ps) auto

lemma serialize_rewrites:
  "serialize_held rt f v = Inr tv \<Longrightarrow> \<not> is_date (snd tv) \<and> \<not> holds_date (snd tv)"
  "serialize_list rt f xs = Inr rs \<Longrightarrow> \<forall>r\<in>set rs. \<not> is_date (snd r) \<and> \<not> holds_date (snd r)"
  "serialize_props rt f ps = Inr qs \<Longrightarrow>
     \<forall>q\<in>set qs. \<not> is_date (snd (snd q)) \<and> \<not> holds_date (snd (snd q))"
proof (induction rt f v and rt f xs and rt f ps arbitrary: tv and rs and qs
       rule: serialize_held_serialize_list_serialize_props.induct)
  case (6 rt f d)
  then show ?case
    by (auto simp: date_slot_def split: sum.splits dest: dateReplacer_record)
next
  case (7 rt f xs)
  then show ?case
    by (auto simp: holds_date_list_map split: sum.splits)
next
  case (8 rt f ps)
  then show ?case
    by (fastforce simp: holds_date_props_map split: sum.splits)
next
  case (10 rt f c cs)
  then show ?case by (fastforce split: sum.splits)
next
  case (12 rt f k c ps)
  then show ?case by (fastforce split: sum.splits)
qed auto

lemma serialize_props_date:
  "serialize_props rt f ps = Inr rs \<Longrightarrow> map_of ps k = Some (JDate d) \<Longrightarrow>
     \<exists>r. dateReplacer rt f d = Inr r \<and> map_of (map (\<lambda>(k, r). (k, snd r)) rs) k = Some r"
proof (induction ps arbitrary: rs)
  case Nil
  then show ?case by simp
next
  case (Cons p ps)
  obtain k' v where p: "p = (k', v)" by (cases p)
  from Cons.prems obtain r' rs' where rs: "rs = (k', r') # rs'"
      "serialize_held rt f v = Inr r'" "serialize_props rt f ps = Inr rs'"
    unfolding p by (auto split: sum.splits)
  show ?case
  proof (cases "k' = k")
    case True
    with Cons.prems(2) p have "v = JDate d" by simp
    with rs True show ?thesis
      by (auto simp: date_slot_def split: sum.splits)
  next
    case False
    with Cons.prems(2) p have "map_of ps k = Some (JDate d)" by simp
    from Cons.IH[OF rs(3) this] False rs(1) show ?thesis by auto
  qed
qed


lemma serialize_list_nth:
  "serialize_list rt f xs = Inr rs \<Longrightarrow> i < length xs \<Longrightarrow> serialize_held rt f (xs ! i) = Inr (rs ! i)"
proof (induction xs arbitrary: rs i)
  case Nil
  then show ?case by simp
next
  case (Cons x xs)
  then show ?case by (cases i) (auto split: sum.splits)
qed

lemma exportDataString_shape:
  assumes "exportDataString rt af s = Inr (text, s')"
  shows "\<exists>rts res rtr.
           serialize_list rt iso (timelines s) = Inr rts
         \<and> serialize_list rt iso (events s) = Inr res
         \<and> serialize_props rt iso (spread_object (timeRange s)) = Inr rtr
         \<and> text = Some (JSON_write rt (if af then 2 else 0)
              (JObj [(''timelines'', JArr (map (\<lambda>r. case fst r of None \<Rightarrow> Null | Some j \<Rightarrow> j) rts)),
                     (''events'', JArr (map (\<lambda>r. case fst r of None \<Rightarrow> Null | Some j \<Rightarrow> j) res)),
                     (''timeRange'', JObj (present (map (\<lambda>(k, r). (k, fst r)) rtr)))]))
         \<and> timelines s' = map2 shared (timelines s) (map snd rts)
         \<and> events s' = map2 shared (events s) (map snd res)"
  using assms
  by (auto simp: exportDataString_def stringify_def serialize_def exportData_def
        new_JSONSerializer_def pick_def after_stringify_def
      split: sum.splits prod.splits)

text \<open>
  C9. When \<open>stringify\<close> returns, each property of the argument that held a date holds
  the record of \<open>dateReplacer\<close> instead, and no date is left in any property or
  element at any depth. When \<open>exportDataString\<close> returns, this has happened to the
  instance's own events: an event that had a date in a property has the ISO record
  there, and no stored event holds a date any more.
\<close>

theorem stringify_rewrites_dates_of_argument:
  "(stringify rt opts (JObj ps) = Inr (text, v') \<and> map_of ps k = Some (JDate d) \<longrightarrow>
       (\<exists>r. dateReplacer rt (dateFormat opts) d = Inr r \<and> field v' k = r
            \<and> field r ''$type'' = JStr ''Date'' \<and> \<not> is_date r)
       \<and> \<not> holds_date v')
   \<and> (exportDataString rt af s = Inr (text', s') \<longrightarrow>
       length (events s') = length (events s)
       \<and> (\<forall>e\<in>set (events s'). \<not> holds_date e)
       \<and> (\<forall>i qs t. i < length (events s) \<and> events s ! i = JObj qs
              \<and> map_of qs k = Some (JDate (Some t)) \<longrightarrow>
            field (events s' ! i) k
              = JObj [(''$type'', JStr ''Date''), (''$value'', JStr (toISOString rt t))]))"
proof -
  have a: "(\<exists>r. dateReplacer rt (dateFormat opts) d = Inr r \<and> field v' k = r
              \<and> field r ''$type'' = JStr ''Date'' \<and> \<not> is_date r)
           \<and> \<not> holds_date v'"
    if h: "stringify rt opts (JObj ps) = Inr (text, v') \<and> map_of ps k = Some (JDate d)"
  proof -
    from h obtain t where t: "serialize_held rt (dateFormat opts) (JObj ps) = Inr (t, v')"
      by (auto simp: stringify_def serialize_def split: sum.splits prod.splits)
    then obtain rs where rs: "serialize_props rt (dateFormat opts) ps = Inr rs"
        "v' = JObj (map (\<lambda>(k, r). (k, snd r)) rs)"
      by (auto split: sum.splits)
    from serialize_props_date[OF rs(1)] h obtain r where
      r: "dateReplacer rt (dateFormat opts) d = Inr r"
         "map_of (map (\<lambda>(k, r). (k, snd r)) rs) k = Some r"
      by blast
    have "\<not> holds_date v'" using serialize_rewrites(1)[OF t] by simp
    with r rs(2) dateReplacer_record[OF r(1)] show ?thesis by simp
  qed
  have b: "length (events s') = length (events s)
       \<and> (\<forall>e\<in>set (events s'). \<not> holds_date e)
       \<and> (\<forall>i qs t. i < length (events s) \<and> events s ! i = JObj qs
              \<and> map_of qs k = Some (JDate (Some t)) \<longrightarrow>
            field (events s' ! i) k
              = JObj [(''$type'', JStr ''Date''), (''$value'', JStr (toISOString rt t))])"
    if h: "exportDataString rt af s = Inr (text', s')"
  proof -
    from exportDataString_shape[OF h] obtain res where
      res: "serialize_list rt iso (events s) = Inr res"
           "events s' = map2 shared (events s) (map snd res)"
      by blast
    have len: "length res = length (events s)" using serialize_list_length[OF res(1)] .
    have nth: "events s' ! i = shared (events s ! i) (snd (res ! i))" if "i < length (events s)" for i
      using that len res(2) by simp
    have 1: "length (events s') = length (events s)" using len res(2) by simp
    have 2: "\<forall>e\<in>set (events s'). \<not> holds_date e"
    proof
      fix e assume "e \<in> set (events s')"
      then obtain i where i: "i < length (events s)" "e = events s' ! i"
        using 1 by (metis in_set_conv_nth)
      have "\<not> holds_date (snd (res ! i))"
        using serialize_rewrites(2)[OF res(1)] i(1) len by simp
      then show "\<not> holds_date e"
        unfolding i(2) nth[OF i(1)] by (cases "events s ! i") simp_all
    qed
    have 3: "field (events s' ! i) k
              = JObj [(''$type'', JStr ''Date''), (''$value'', JStr (toISOString rt t))]"
      if g: "i < length (events s) \<and> events s ! i = JObj qs \<and> map_of qs k = Some (JDate (Some t))"
      for i qs t
    proof -
      from g have i: "i < length (events s)" and q: "events s ! i = JObj qs"
        and m: "map_of qs k = Some (JDate (Some t))" by simp_all
      obtain tt vv where tv: "res ! i = (tt, vv)" by (cases "res ! i")
      have "serialize_held rt iso (JObj qs) = Inr (tt, vv)"
        using serialize_list_nth[OF res(1) i] q tv by simp
      then obtain rs where rs0: "serialize_props rt iso qs = Inr rs"
          "vv = JObj (map (\<lambda>(k, r). (k, snd r)) rs)"
        by (auto split: sum.splits)
      then have rs: "serialize_props rt iso qs = Inr rs"
          "snd (res ! i) = JObj (map (\<lambda>(k, r). (k, snd r)) rs)"
        using tv by simp_all
      from serialize_props_date[OF rs(1) m] obtain r where
        r: "dateReplacer rt iso (Some t) = Inr r"
           "map_of (map (\<lambda>(k, r). (k, snd r)) rs) k = Some r"
        by blast
      from r(1) have "r = JObj [(''$type'', JStr ''Date''), (''$value'', JStr (toISOString rt t))]"
        by (simp add: dateReplacer_def)
      with r(2) rs(2) show ?thesis
        unfolding nth[OF i] q by simp
    qed
    from 1 2 3 show ?thesis by blast
  qed
  from a b show ?thesis by blast
qed


lemmas export_defs =
  exportDataString_def stringify_def serialize_def exportData_def new_JSONSerializer_def
  after_stringify_def date_slot_def dateReplacer_def pick_def

theorem stringify_rewrites_dates_of_argument_witness:
  "\<exists>text s'. exportDataString example_runtime False example_instance2 = Inr (text, s')
      \<and> field (events s' ! 0) ''startTime''
          = JObj [(''$type'', JStr ''Date''), (''$value'', JStr ''1970-01-01T00:00:00.000Z'')]
      \<and> (\<forall>e\<in>set (events s'). \<not> holds_date e)"
proof -
  have "\<exists>text s'. exportDataString example_runtime False example_instance2 = Inr (text, s')"
    by (simp add: export_defs example_instance2_def example_events_def example_timelines_def
        example_defs)
  then obtain out s' where ex:
    "exportDataString example_runtime False example_instance2 = Inr (out, s')"
    by blast
  have ev: "0 < length (events example_instance2)
      \<and> events example_instance2 ! 0 = JObj (properties (example_events ! 0))
      \<and> map_of (properties (example_events ! 0)) ''startTime'' = Some (JDate (Some 0))"
    by (simp add: example_instance2_def example_events_def)
  have iso0: "toISOString example_runtime 0 = ''1970-01-01T00:00:00.000Z''"
    by (simp add: example_runtime_def example_base_def)
  from stringify_rewrites_dates_of_argument
         [where rt = example_runtime and af = False and s = example_instance2
            and text' = out and s' = s' and k = "''startTime''"] ex ev iso0
  have "field (events s' ! 0) ''startTime''
          = JObj [(''$type'', JStr ''Date''), (''$value'', JStr ''1970-01-01T00:00:00.000Z'')]
        \<and> (\<forall>e\<in>set (events s'). \<not> holds_date e)"
    by metis
  with ex show ?thesis by blast
qed


section \<open>Properties of importing\<close>

lemma spread_iterable_TypeError: "spread_iterable v = Inl e \<Longrightarrow> e = TypeError"
  by (cases v) auto

lemma resize_logged: "logged (snd (resize rt doc s)) = logged s"
  by (simp add: resize_def Let_def)

lemma resize_timeRange: "timeRange (snd (resize rt doc s)) = timeRange s"
  by (simp add: resize_def Let_def)

lemma importData_try_first:
  assumes "nullish data \<or> isl (spread_iterable (field data ''timelines''))"
  shows "importData_try rt doc data s = (Inl TypeError, s)"
proof (cases "nullish data")
  case True
  then show ?thesis by (cases data) (simp_all add: importData_try_def)
next
  case False
  with assms obtain e where "spread_iterable (field data ''timelines'') = Inl e"
    by (cases "spread_iterable (field data ''timelines'')") auto
  with False show ?thesis
    using spread_iterable_TypeError by (fastforce simp: importData_try_def get_prop_field)
qed

lemma importData_try_second:
  assumes "\<not> nullish data" and "spread_iterable (field data ''timelines'') = Inr ts"
    and "isl (spread_iterable (field data ''events''))"
  shows "importData_try rt doc data s = (Inl TypeError, s\<lparr>timelines := ts\<rparr>)"
proof -
  from assms(3) obtain e where "spread_iterable (field data ''events'') = Inl e"
    by (cases "spread_iterable (field data ''events'')") auto
  with assms(1,2) show ?thesis
    using spread_iterable_TypeError by (fastforce simp: importData_try_def get_prop_field Let_def)
qed

lemma importData_try_assigned:
  assumes "\<not> nullish data" and "spread_iterable (field data ''timelines'') = Inr ts"
    and "spread_iterable (field data ''events'') = Inr es"
  shows "importData_try rt doc data s
           = (map_sum id (\<lambda>_. True)
                (fst (resize rt doc (s\<lparr>timelines := ts, events := es,
                         timeRange := JObj (spread_object (field data ''timeRange''))\<rparr>))),
              snd (resize rt doc (s\<lparr>timelines := ts, events := es,
                         timeRange := JObj (spread_object (field data ''timeRange''))\<rparr>)))"
  using assms
  by (auto simp: importData_try_def get_prop_field Let_def split: prod.splits sum.splits)

text \<open>
  What \<open>importDataString\<close> does with a text that is not JSON: the parse is evaluated as
  the argument of \<open>importData\<close>, outside its \<open>try\<close>, and the SyntaxError leaves the
  function.
\<close>

lemma importDataString_not_JSON:
  "JSON_read rt txt0 = None \<Longrightarrow> importDataString rt doc txt0 s = (Inl SyntaxError, s)"
  by (simp add: importDataString_def parse_def)

text \<open>
  C7. A payload with timelines and without events: \<open>importData\<close> returns
  \<open>false\<close>, and the timelines of the instance have been replaced by then.
\<close>

theorem importData_failure_keeps_assigned:
  "importData example_runtime example_doc (JObj [(''timelines'', JArr [])]) example_instance2
     = (Inr False, example_instance2 \<lparr>timelines := [], logged := [TypeError]\<rparr>)
   \<and> timelines example_instance2 \<noteq> []"
  by (simp add: importData_def importData_try_def field_def Let_def
      example_instance2_def example_instance_def init_def example_timelines_def)

text \<open>
  C7, as amended. \<open>importData\<close> never raises: it returns \<open>false\<close> exactly when its
  body raised, and then the exception has been logged. What the body has assigned
  before it raised stays assigned: nothing when the payload is \<open>undefined\<close> or
  \<open>null\<close> or its timelines cannot be spread; the timelines when its events cannot be
  spread; all three fields when rendering raises.
\<close>

theorem importData_catches:
  "(\<exists>b s'. importData rt doc data s = (Inr b, s'))
   \<and> ((fst (importData rt doc data s) = Inr False)
        = (\<exists>e. fst (importData_try rt doc data s) = Inl e))
   \<and> (\<forall>e. fst (importData_try rt doc data s) = Inl e \<longrightarrow>
         logged (snd (importData rt doc data s)) = logged s @ [e])
   \<and> (nullish data \<or> isl (spread_iterable (field data ''timelines'')) \<longrightarrow>
         importData rt doc data s = (Inr False, s\<lparr>logged := logged s @ [TypeError]\<rparr>))
   \<and> (\<forall>ts. \<not> nullish data \<and> spread_iterable (field data ''timelines'') = Inr ts
          \<and> isl (spread_iterable (field data ''events'')) \<longrightarrow>
         importData rt doc data s
           = (Inr False, s\<lparr>timelines := ts, logged := logged s @ [TypeError]\<rparr>))
   \<and> (\<forall>ts es. \<not> nullish data \<and> spread_iterable (field data ''timelines'') = Inr ts
          \<and> spread_iterable (field data ''events'') = Inr es \<longrightarrow>
         timelines (snd (importData rt doc data s)) = ts
         \<and> events (snd (importData rt doc data s)) = es
         \<and> timeRange (snd (importData rt doc data s))
             = JObj (spread_object (field data ''timeRange'')))"
proof -
  obtain r s1 where body: "importData_try rt doc data s = (r, s1)"
    by (cases "importData_try rt doc data s")
  have never: "\<exists>b s'. importData rt doc data s = (Inr b, s')"
    using body by (cases r) (auto simp: importData_def)
  have tr: "r \<noteq> Inr False"
  proof (cases "nullish data \<or> isl (spread_iterable (field data ''timelines''))")
    case True
    from importData_try_first[OF this] body show ?thesis by auto
  next
    case False
    then obtain ts where ts: "\<not> nullish data" "spread_iterable (field data ''timelines'') = Inr ts"
      by (cases "spread_iterable (field data ''timelines'')") auto
    show ?thesis
    proof (cases "spread_iterable (field data ''events'')")
      case (Inl e)
      then have "isl (spread_iterable (field data ''events''))" by simp
      from importData_try_second[OF ts this] body show ?thesis by auto
    next
      case (Inr es)
      from importData_try_assigned[OF ts Inr] body show ?thesis
        by (cases "fst (resize rt doc (s\<lparr>timelines := ts, events := es,
                         timeRange := JObj (spread_object (field data ''timeRange''))\<rparr>))")
           auto
    qed
  qed
  have iff: "(fst (importData rt doc data s) = Inr False)
        = (\<exists>e. fst (importData_try rt doc data s) = Inl e)"
    using body tr by (cases r) (auto simp: importData_def)
  have lg0: "logged s1 = logged s"
  proof (cases "nullish data \<or> isl (spread_iterable (field data ''timelines''))")
    case True
    from importData_try_first[OF this] body show ?thesis by auto
  next
    case False
    then obtain ts where ts: "\<not> nullish data" "spread_iterable (field data ''timelines'') = Inr ts"
      by (cases "spread_iterable (field data ''timelines'')") auto
    show ?thesis
    proof (cases "spread_iterable (field data ''events'')")
      case (Inl e)
      then have "isl (spread_iterable (field data ''events''))" by simp
      from importData_try_second[OF ts this] body show ?thesis by auto
    next
      case (Inr es)
      from importData_try_assigned[OF ts Inr] body show ?thesis
        by (auto simp: resize_logged)
    qed
  qed
  have lg: "\<forall>e. fst (importData_try rt doc data s) = Inl e \<longrightarrow>
         logged (snd (importData rt doc data s)) = logged s @ [e]"
    using body lg0 by (auto simp: importData_def)
  have c1: "importData rt doc data s = (Inr False, s\<lparr>logged := logged s @ [TypeError]\<rparr>)"
    if "nullish data \<or> isl (spread_iterable (field data ''timelines''))"
    using importData_try_first[OF that] by (simp add: importData_def)
  have c2: "importData rt doc data s
           = (Inr False, s\<lparr>timelines := ts, logged := logged s @ [TypeError]\<rparr>)"
    if "\<not> nullish data \<and> spread_iterable (field data ''timelines'') = Inr ts
          \<and> isl (spread_iterable (field data ''events''))" for ts
    using importData_try_second[of data ts rt doc s] that by (simp add: importData_def)
  have c3: "timelines (snd (importData rt doc data s)) = ts
         \<and> events (snd (importData rt doc data s)) = es
         \<and> timeRange (snd (importData rt doc data s))
             = JObj (spread_object (field data ''timeRange''))"
    if "\<not> nullish data \<and> spread_iterable (field data ''timelines'') = Inr ts
          \<and> spread_iterable (field data ''events'') = Inr es" for ts es
    using importData_try_assigned[of data ts es rt doc s] that
    by (cases "fst (resize rt doc (s\<lparr>timelines := ts, events := es,
                         timeRange := JObj (spread_object (field data ''timeRange''))\<rparr>))")
       (simp_all add: importData_def resize_data resize_timeRange)
  from never iff lg c1 c2 c3 show ?thesis by blast
qed

theorem importData_catches_witness:
  "importData example_runtime example_doc Null example_instance2
     = (Inr False, example_instance2 \<lparr>logged := [TypeError]\<rparr>)"
proof -
  have "logged example_instance2 = []"
    by (simp add: example_instance2_def example_instance_def init_def)
  then show ?thesis
    using importData_catches [where rt = example_runtime and doc = example_doc and data = Null
        and s = example_instance2]
    by simp
qed


section \<open>Properties of the round trip\<close>

lemma serialize_norm:
  "exportable rt f v \<Longrightarrow>
     \<exists>t v1 v2. serialize_held rt f v = Inr (t, v1) \<and> serialize_held rt f (json_norm v) = Inr (t, v2)"
  "exportable_list rt f xs \<Longrightarrow>
     \<exists>rs rs'. serialize_list rt f xs = Inr rs \<and> serialize_list rt f (json_norm_list xs) = Inr rs'
       \<and> map (\<lambda>r. case fst r of None \<Rightarrow> Null | Some j \<Rightarrow> j) rs'
         = map (\<lambda>r. case fst r of None \<Rightarrow> Null | Some j \<Rightarrow> j) rs"
  "exportable_props rt f ps \<Longrightarrow>
     \<exists>rs rs'. serialize_props rt f ps = Inr rs \<and> serialize_props rt f (json_norm_props ps) = Inr rs'
       \<and> present (map (\<lambda>(k, r). (k, fst r)) rs') = present (map (\<lambda>(k, r). (k, fst r)) rs)"
proof (induction rt f v and rt f xs and rt f ps
       rule: serialize_held_serialize_list_serialize_props.induct)
  case (4 rt f n)
  then show ?case by (cases n) simp_all
next
  case (6 rt f d)
  then obtain t where t: "d = Some t" by (cases d) auto
  then show ?case
    by (cases f) (simp_all add: date_slot_def dateReplacer_def)
next
  case (7 rt f xs)
  then obtain rs rs' where "serialize_list rt f xs = Inr rs"
      "serialize_list rt f (json_norm_list xs) = Inr rs'"
      "map (\<lambda>r. case fst r of None \<Rightarrow> Null | Some j \<Rightarrow> j) rs'
         = map (\<lambda>r. case fst r of None \<Rightarrow> Null | Some j \<Rightarrow> j) rs"
    by auto
  then show ?case by simp
next
  case (8 rt f ps)
  then obtain rs rs' where "serialize_props rt f ps = Inr rs"
      "serialize_props rt f (json_norm_props ps) = Inr rs'"
      "present (map (\<lambda>(k, r). (k, fst r)) rs') = present (map (\<lambda>(k, r). (k, fst r)) rs)"
    by auto
  then show ?case by simp
next
  case (10 rt f c cs)
  then obtain t v1 v2 where c: "serialize_held rt f c = Inr (t, v1)"
      "serialize_held rt f (json_norm c) = Inr (t, v2)"
    by auto
  with 10 obtain rs rs' where rs: "serialize_list rt f cs = Inr rs"
      "serialize_list rt f (json_norm_list cs) = Inr rs'"
      "map (\<lambda>r. case fst r of None \<Rightarrow> Null | Some j \<Rightarrow> j) rs'
         = map (\<lambda>r. case fst r of None \<Rightarrow> Null | Some j \<Rightarrow> j) rs"
    by auto
  show ?case
    using c rs by (cases "c = Undefined") auto
next
  case (12 rt f k c ps)
  then obtain t v1 v2 where c: "serialize_held rt f c = Inr (t, v1)"
      "serialize_held rt f (json_norm c) = Inr (t, v2)"
    by auto
  with 12 obtain rs rs' where rs: "serialize_props rt f ps = Inr rs"
      "serialize_props rt f (json_norm_props ps) = Inr rs'"
      "present (map (\<lambda>(k, r). (k, fst r)) rs') = present (map (\<lambda>(k, r). (k, fst r)) rs)"
    by auto
  show ?case
    using c rs by (cases "c = Undefined"; cases t) auto
qed simp_all


lemma field_json_norm:
  "distinct (map fst ps) \<Longrightarrow> field (JObj (json_norm_props ps)) k = json_norm (field (JObj ps) k)"
  by (simp add: map_of_json_norm_props split: option.splits)

lemma exportable_props_field:
  "exportable_props rt f ps \<Longrightarrow> exportable rt f (field (JObj ps) k)"
  by (induction ps) auto

lemma finite_ID_norm: "finite_ID v \<Longrightarrow> json_norm v = v"
  by (cases v rule: finite_ID.cases) auto

lemma finite_ID_is_ID: "finite_ID v \<Longrightarrow> is_ID v"
  by (cases v rule: finite_ID.cases) auto

lemma finite_ID_toString: "finite_ID v \<Longrightarrow> call_toString rt v = Inr ()"
  by (cases v rule: finite_ID.cases) auto

lemma typed_timeline_norm:
  assumes "typed_timeline t" and "exportable rt f t"
  shows "typed_timeline (json_norm t) \<and> json_norm t \<noteq> Undefined"
proof -
  from assms(1) obtain ps where t: "t = JObj ps" and i: "finite_ID (field (JObj ps) ''id'')"
    by (cases t) (auto simp: typed_timeline_def)
  have d: "distinct (map fst ps)" using assms(2) t by simp
  show ?thesis
    using i unfolding t typed_timeline_def
    by (simp add: field_json_norm[OF d] finite_ID_norm del: field_of)
qed

lemma typed_event_norm:
  assumes "typed_event e" and "exportable rt f e"
  shows "typed_event (json_norm e) \<and> json_norm e \<noteq> Undefined"
proof -
  from assms(1) obtain ps where e: "e = JObj ps" and i: "finite_ID (field (JObj ps) ''id'')"
    and st: "case field (JObj ps) ''stage'' of
               Undefined \<Rightarrow> True
             | JObj st \<Rightarrow>
                 finite_ID (field (JObj st) ''id'')
                 \<and> (case field (JObj st) ''index'' of JNum (Fin r) \<Rightarrow> True | _ \<Rightarrow> False)
             | _ \<Rightarrow> False"
    by (cases e) (auto simp: typed_event_def)
  have d: "distinct (map fst ps)" and xp: "exportable_props rt f ps" using assms(2) e by simp_all
  have stage: "case json_norm (field (JObj ps) ''stage'') of
               Undefined \<Rightarrow> True
             | JObj st \<Rightarrow>
                 finite_ID (field (JObj st) ''id'')
                 \<and> (case field (JObj st) ''index'' of JNum (Fin r) \<Rightarrow> True | _ \<Rightarrow> False)
             | _ \<Rightarrow> False"
  proof (cases "field (JObj ps) ''stage''")
    case (JObj sp)
    have "exportable rt f (JObj sp)"
      using exportable_props_field[OF xp, of "''stage''"] JObj by simp
    then have ds: "distinct (map fst sp)" by simp
    have ix: "\<exists>r. field (JObj sp) ''index'' = JNum (Fin r)"
      using st JObj by (auto simp del: field_of split: jsval.splits jsnum.splits)
    have idn: "finite_ID (field (JObj sp) ''id'')" using st JObj by (simp del: field_of)
    from ix obtain r where r: "field (JObj sp) ''index'' = JNum (Fin r)" by blast
    show ?thesis
      unfolding JObj
      using idn r
      by (simp add: field_json_norm[OF ds] finite_ID_norm del: field_of)
  qed (use st in \<open>simp_all del: field_of\<close>)
  show ?thesis
    using i stage unfolding e typed_event_def
    by (simp add: field_json_norm[OF d] finite_ID_norm del: field_of)
qed

lemma typed_event_stage:
  assumes "typed_event e"
  shows "\<not> nullish e \<and> has_typed_stage e"
proof -
  from assms obtain ps where e: "e = JObj ps" by (cases e) (auto simp: typed_event_def)
  show ?thesis
    using assms unfolding e typed_event_def has_typed_stage_def
    by (auto simp del: field_of split: jsval.splits jsnum.splits dest: finite_ID_is_ID)
qed

lemma check_keys_typed:
  "\<forall>x\<in>set xs. is_object x \<and> finite_ID (field x ''id'') \<Longrightarrow> check_keys rt xs = Inr ()"
proof (induction xs)
  case Nil
  then show ?case by simp
next
  case (Cons x xs)
  then obtain ps where x: "x = JObj ps" by (cases x) auto
  have "call_toString rt (field x ''id'') = Inr ()"
    using Cons.prems finite_ID_toString by simp
  with Cons x show ?case by (simp add: field_def)
qed

lemma render_force_typed:
  assumes "\<forall>t\<in>set (timelines s). typed_timeline t" and "\<forall>e\<in>set (events s). typed_event e"
  shows "render rt doc True s = Inr ()"
proof -
  have kt: "check_keys rt (timelines s) = Inr ()"
    using assms(1) by (intro check_keys_typed) (simp add: typed_timeline_def)
  have ke: "check_keys rt (events s) = Inr ()"
    using assms(2) by (intro check_keys_typed) (simp add: typed_event_def)
  have nt: "\<forall>t\<in>set (timelines s). \<not> nullish t"
  proof
    fix t assume "t \<in> set (timelines s)"
    with assms(1) have "is_object t" by (simp add: typed_timeline_def)
    then show "\<not> nullish t" by (cases t) auto
  qed
  have ne: "\<forall>e\<in>set (events s). \<not> nullish e \<and> has_typed_stage e"
    using assms(2) typed_event_stage by blast
  have "\<exists>r. renderStageLines rt (xScale doc) s = Inr r"
  proof (cases "stageLinesVisible s")
    case True
    from renderStageLines_visible[OF True nt ne, of rt "xScale doc"] show ?thesis by blast
  next
    case False
    then show ?thesis by (simp add: renderStageLines_def)
  qed
  then show ?thesis
    using kt ke by (auto simp: render_def renderTimelines_def renderEvents_def)
qed

lemma resize_typed:
  assumes "\<forall>t\<in>set (timelines s). typed_timeline t" and "\<forall>e\<in>set (events s). typed_event e"
  shows "fst (resize rt doc s) = Inr ()"
  using assms by (simp add: resize_def Let_def render_force_typed)

lemma json_norm_list_map:
  "\<forall>x\<in>set xs. x \<noteq> Undefined \<Longrightarrow> json_norm_list xs = map json_norm xs"
  by (induction xs) auto

lemma exportable_list_all: "exportable_list rt f xs = (\<forall>x\<in>set xs. exportable rt f x)"
  by (induction xs) auto


lemma is_date_finite_or_null: "\<not> is_date (finite_or_null n)"
  by (cases n) simp_all

lemma is_date_json_norm: "is_date (json_norm v) = is_date v"
  by (cases v) (simp_all add: is_date_finite_or_null)

lemma serialize_not_date: "\<not> is_date v \<Longrightarrow> serialize rt f v = serialize_held rt f v"
  by (cases v) (simp_all add: serialize_def)

lemma deepEqual_norm:
  assumes "exportable rt (dateFormat opts) v"
  shows "deepEqual rt opts (json_norm v) v = Inr True"
proof (cases "is_date v")
  case True
  then obtain d where "v = JDate d" by (cases v) auto
  then show ?thesis by (simp add: deepEqual_def stringify_def serialize_def)
next
  case False
  from serialize_norm(1)[OF assms] obtain t v1 v2 where
    "serialize_held rt (dateFormat opts) v = Inr (t, v1)"
    "serialize_held rt (dateFormat opts) (json_norm v) = Inr (t, v2)"
    by blast
  with False show ?thesis
    by (simp add: deepEqual_def stringify_def serialize_not_date is_date_json_norm)
qed

lemma deepClone_norm:
  assumes "exportable rt (dateFormat opts) v" and "\<not> is_date v" and "v \<noteq> Undefined"
    and "\<forall>j v'. serialize rt (dateFormat opts) v = Inr (Some j, v') \<longrightarrow>
           JSON_read rt (JSON_write rt (space opts) j) = Some j"
  shows "deepClone rt opts v = Inr (json_norm v)"
proof -
  from serialize_revive(1)[OF assms(1)] assms(3) obtain j v' where
    j: "serialize_held rt (dateFormat opts) v = Inr (Some j, v')"
       "revive rt (dateFormat opts) j = Inr (json_norm v)"
    by (metis option.exhaust)
  have "JSON_read rt (JSON_write rt (space opts) j) = Some j"
    using assms(2,4) j(1) by (simp add: serialize_not_date)
  then show ?thesis
    using j assms(2) by (simp add: deepClone_def stringify_def parse_def serialize_not_date)
qed

lemma exportData_exportable:
  assumes "\<forall>t\<in>set (timelines s). exportable rt f t" and "\<forall>e\<in>set (events s). exportable rt f e"
    and "is_object (timeRange s) \<and> exportable rt f (timeRange s)"
  shows "exportable rt f (exportData s)"
    and "json_norm (exportData s)
           = JObj [(''timelines'', JArr (json_norm_list (timelines s))),
                   (''events'', JArr (json_norm_list (events s))),
                   (''timeRange'', json_norm (timeRange s))]"
proof -
  from assms(3) obtain tr where tr: "timeRange s = JObj tr" by (cases "timeRange s") auto
  show "exportable rt f (exportData s)"
    using assms tr by (simp add: exportData_def exportable_list_all)
  show "json_norm (exportData s)
           = JObj [(''timelines'', JArr (json_norm_list (timelines s))),
                   (''events'', JArr (json_norm_list (events s))),
                   (''timeRange'', json_norm (timeRange s))]"
    using tr by (simp add: exportData_def)
qed

lemma export_then_parse:
  assumes "\<forall>t\<in>set (timelines s). exportable rt iso t" and "\<forall>e\<in>set (events s). exportable rt iso e"
    and "is_object (timeRange s) \<and> exportable rt iso (timeRange s)"
    and "\<forall>j v. serialize rt iso (exportData s) = Inr (Some j, v) \<longrightarrow>
           JSON_read rt (JSON_write rt (if af then 2 else 0) j) = Some j"
  shows "\<exists>out s1. exportDataString rt af s = Inr (Some out, s1)
           \<and> parse rt (new_JSONSerializer None None) out = Inr (json_norm (exportData s))"
proof -
  have x: "exportable rt iso (exportData s)"
    using exportData_exportable(1)[OF assms(1-3)] .
  have nd: "\<not> is_date (exportData s)" "exportData s \<noteq> Undefined"
    by (simp_all add: exportData_def)
  from serialize_revive(1)[OF x] nd(2) obtain j v' where
    j: "serialize_held rt iso (exportData s) = Inr (Some j, v')"
       "revive rt iso j = Inr (json_norm (exportData s))"
    by (metis option.exhaust)
  have r: "JSON_read rt (JSON_write rt (if af then 2 else 0) j) = Some j"
    using assms(4) j(1) nd(1) by (simp add: serialize_not_date)
  have e: "exportDataString rt af s
             = Inr (Some (JSON_write rt (if af then 2 else 0) j), after_stringify s v')"
    using j(1) nd(1)
    by (simp add: exportDataString_def stringify_def serialize_not_date new_JSONSerializer_def
        pick_def)
  have p: "parse rt (new_JSONSerializer None None) (JSON_write rt (if af then 2 else 0) j)
             = Inr (json_norm (exportData s))"
    using r j(2) by (simp add: parse_def new_JSONSerializer_def pick_def)
  from e p show ?thesis by blast
qed

lemma import_assigned:
  "\<exists>b s2. importData rt doc
                 (JObj [(''timelines'', JArr ts), (''events'', JArr es), (''timeRange'', tr)]) s0
               = (Inr b, s2)
           \<and> timelines s2 = ts \<and> events s2 = es \<and> timeRange s2 = JObj (spread_object tr)
           \<and> ((\<forall>t\<in>set ts. typed_timeline t) \<and> (\<forall>e\<in>set es. typed_event e) \<longrightarrow> b)"
proof -
  let ?data = "JObj [(''timelines'', JArr ts), (''events'', JArr es), (''timeRange'', tr)]"
  let ?s3 = "s0\<lparr>timelines := ts, events := es,
                 timeRange := JObj (spread_object (field ?data ''timeRange''))\<rparr>"
  have a: "importData_try rt doc ?data s0
             = (map_sum id (\<lambda>_. True) (fst (resize rt doc ?s3)), snd (resize rt doc ?s3))"
    by (rule importData_try_assigned) simp_all
  have ok: "fst (resize rt doc ?s3) = Inr ()"
    if "(\<forall>t\<in>set ts. typed_timeline t) \<and> (\<forall>e\<in>set es. typed_event e)"
    using that by (intro resize_typed) simp_all
  show ?thesis
  proof (cases "fst (resize rt doc ?s3)")
    case (Inl e)
    with a have "importData rt doc ?data s0
                   = (Inr False, (snd (resize rt doc ?s3))
                        \<lparr>logged := logged (snd (resize rt doc ?s3)) @ [e]\<rparr>)"
      by (simp add: importData_def)
    with Inl ok show ?thesis
      by (auto simp: resize_data resize_timeRange)
  next
    case (Inr u)
    with a have "importData rt doc ?data s0 = (Inr True, snd (resize rt doc ?s3))"
      by (simp add: importData_def)
    then show ?thesis
      by (auto simp: resize_data resize_timeRange)
  qed
qed

text \<open>
  An invalid date stops the export: \<open>toISOString\<close> raises a RangeError inside
  \<open>stringify\<close>, and there is no text to import.
\<close>

lemma exportDataString_invalid_date:
  "exportDataString example_runtime False
     (example_instance2 \<lparr>events := [JObj [(''id'', JStr ''e''), (''startTime'', JDate None)]]\<rparr>)
   = Inl RangeError"
  by (simp add: exportDataString_def stringify_def serialize_def exportData_def
      date_slot_def dateReplacer_def new_JSONSerializer_def pick_def
      example_instance2_def example_timelines_def)



end
